theory Spec2Isabelle
  imports Main "HOL-Library.Word" "HOL-Library.Multiset" "HOL-Library.AList"
begin

section \<open>Values of the Go program\<close>

text \<open>
  Go's \<open>int64\<close> and \<open>uint64\<close> are 64-bit words: \<open>+\<close> wraps around, \<open>sint\<close> reads an
  \<open>int64\<close>, \<open>unat\<close> a \<open>uint64\<close>.
\<close>

type_synonym int64 = "64 word"
type_synonym uint64 = "64 word"

text \<open>\<open>time.Time\<close> (an instant) and \<open>time.Duration\<close> (nanoseconds, an \<open>int64\<close>).\<close>

type_synonym time = int
type_synonym duration = int64

text \<open>
  The \<open>float64\<close> values the collectors hand to Prometheus. The program never computes
  with them: every one is a literal or a conversion of an integer read from Ceph, so a
  value is kept as the expression that produced it and no rounding is modelled.
  \<open>Float64_of_int64 x\<close> is \<open>float64(x)\<close> for an \<open>int64\<close>, \<open>Float64_of_uint64 x\<close> for
  a \<open>uint64\<close>, \<open>Float64_of_NumShards n\<close> is \<open>float64(bucketInfo.NumShards)\<close>,
  \<open>Seconds d\<close> is \<open>d.Seconds()\<close>, and the two literals are \<open>1.0\<close> and \<open>0.0\<close>.
\<close>

datatype float64 =
    Float64_of_int64 int64
  | Float64_of_uint64 uint64
  | Float64_of_NumShards int
  | Seconds duration
  | Lit_1_0
  | Lit_0_0

subsection \<open>Prometheus descriptors and metrics\<close>

record Desc =
  fqName :: string
  helpText :: string
  variableLabels :: "string list"

datatype ValueType = CounterValue | GaugeValue

text \<open>
  \<open>prometheus.NewMetricWithTimestamp(t, prometheus.MustNewConstMetric(desc, valueType,
  value, labelValues...))\<close>. \<open>MustNewConstMetric\<close> panics when the number of label
  values differs from the number of variable labels of the descriptor or a label value
  is not valid UTF-8. Every call site passes as many label values as its descriptor has
  variable labels, and the label values are strings decoded by \<open>encoding/json\<close>, which
  are valid UTF-8; so the panic is not reached and the constructor is total here.
\<close>

record Metric =
  desc :: Desc
  valueType :: ValueType
  val :: float64
  labelValues :: "string list"
  timestamp :: time

definition MustNewConstMetric :: "Desc \<Rightarrow> ValueType \<Rightarrow> float64 \<Rightarrow> string list \<Rightarrow> time \<Rightarrow> Metric" where
  "MustNewConstMetric d vt v ls t =
     \<lparr>desc = d, valueType = vt, val = v, labelValues = ls, timestamp = t\<rparr>"

subsection \<open>The payloads of ceph\_stats.go\<close>

record usageCategoryEntry =
  Name :: string
  BytesSent :: int64
  BytesReceived :: int64
  Ops :: int64
  SuccessfulOps :: int64

text \<open>\<open>bucketUsageEntry\<close>; its field \<open>Owner\<close> is \<open>bucketOwner\<close> here.\<close>

record bucketUsageEntry =
  ID :: string
  bucketOwner :: string
  Categories :: "usageCategoryEntry list"

record usageEntry =
  User :: string
  Buckets :: "bucketUsageEntry list"

record usageResponse =
  Entries :: "usageEntry list"

record bucketInfoUsageEntry =
  Size :: uint64
  UtilizedSize :: uint64
  NumObjects :: uint64

record bucketQuotaEntry =
  Enabled :: bool
  MaxSize :: int64
  MaxObjects :: int64

text \<open>
  Modelled from the spec: the field \<open>NumShards\<close> of \<open>bucketInfoEntry\<close>, the bucket's
  shard count, which \<open>bucketsCollector.FetchMetrics\<close> reads and the struct declaration
  does not list; it is an integer that is only ever converted with \<open>float64(...)\<close>.
  The other fields are those of the declaration: \<open>Name\<close> and \<open>Owner\<close> are \<open>infoName\<close>
  and \<open>infoOwner\<close> here, and \<open>Usage\<close> is a Go map that is only looked up.
\<close>

record bucketInfoEntry =
  infoName :: string
  infoOwner :: string
  ZoneGroup :: string
  NumShards :: int
  Usage :: "string \<rightharpoonup> bucketInfoUsageEntry"
  Quota :: bucketQuotaEntry

text \<open>\<open>userStats\<close>, fields \<open>Enabled\<close>, \<open>MaxSize\<close>, \<open>MaxObjects\<close>.\<close>

record userStats =
  userEnabled :: bool
  userMaxSize :: int64
  userMaxObjects :: int64

section \<open>The usage aggregation of operationsCollector.FetchMetrics\<close>

record usageKey =
  Owner :: string
  Bucket :: string
  Category :: string

record usageValue =
  OpsTotal :: int64
  OpsSuccessful :: int64
  SentBytesTotal :: int64
  ReceivedBytesTotal :: int64

text \<open>
  \<open>combinedUsageStats\<close> is a Go map. It is kept as an association list with distinct
  keys: \<open>m[key]\<close> on a missing key is the zero value, \<open>m[key] = v\<close> replaces the entry
  or adds one (\<open>AList.update\<close>). The order of the list is no part of the Go map; the
  order in which \<open>range\<close> visits the map is an input of the cycle (see
  \<open>usageRangeOrder\<close> below).
\<close>

type_synonym usageMap = "(usageKey \<times> usageValue) list"

definition zeroUsageValue :: usageValue where
  "zeroUsageValue = \<lparr>OpsTotal = 0, OpsSuccessful = 0, SentBytesTotal = 0, ReceivedBytesTotal = 0\<rparr>"

definition index :: "usageMap \<Rightarrow> usageKey \<Rightarrow> usageValue" where
  "index m key = (case map_of m key of None \<Rightarrow> zeroUsageValue | Some v \<Rightarrow> v)"

text \<open>The body of the innermost loop (lines 192 to 205).\<close>

definition addCategory :: "string \<Rightarrow> string \<Rightarrow> usageMap \<Rightarrow> usageCategoryEntry \<Rightarrow> usageMap" where
  "addCategory owner bucketName combinedUsageStats category =
     (let key = \<lparr>Owner = owner, Bucket = bucketName, Category = Name category\<rparr>;
          currentValue = index combinedUsageStats key;
          currentValue = currentValue\<lparr>OpsTotal := OpsTotal currentValue + Ops category\<rparr>;
          currentValue = currentValue\<lparr>OpsSuccessful := OpsSuccessful currentValue + SuccessfulOps category\<rparr>;
          currentValue = currentValue\<lparr>SentBytesTotal := SentBytesTotal currentValue + BytesSent category\<rparr>;
          currentValue = currentValue\<lparr>ReceivedBytesTotal := ReceivedBytesTotal currentValue + BytesReceived category\<rparr>
      in AList.update key currentValue combinedUsageStats)"

definition addBucket :: "string \<Rightarrow> usageMap \<Rightarrow> bucketUsageEntry \<Rightarrow> usageMap" where
  "addBucket owner combinedUsageStats bucket =
     foldl (addCategory owner (ID bucket)) combinedUsageStats (Categories bucket)"

definition addEntry :: "usageMap \<Rightarrow> usageEntry \<Rightarrow> usageMap" where
  "addEntry combinedUsageStats entry =
     foldl (addBucket (User entry)) combinedUsageStats (Buckets entry)"

definition combineUsage :: "usageResponse \<Rightarrow> usageMap" where
  "combineUsage usageStats = foldl addEntry [] (Entries usageStats)"

subsection \<open>The descriptors of newOperationsCollector\<close>

definition opsTotal :: Desc where
  "opsTotal = \<lparr>fqName = ''radosgw_usage_opts_total'', helpText = ''Number of operations'',
     variableLabels = [''bucket'', ''owner'', ''category'']\<rparr>"

definition opsSuccessful :: Desc where
  "opsSuccessful = \<lparr>fqName = ''radosgw_usage_successful_ops_total'',
     helpText = ''Number of successful operations'',
     variableLabels = [''bucket'', ''owner'', ''category'']\<rparr>"

definition sentBytesTotal :: Desc where
  "sentBytesTotal = \<lparr>fqName = ''radosgw_usage_sent_bytes_total'', helpText = ''Bytes sent by RGW'',
     variableLabels = [''bucket'', ''owner'', ''category'']\<rparr>"

definition receivedBytesTotal :: Desc where
  "receivedBytesTotal = \<lparr>fqName = ''radosgw_usage_received_bytes_total'',
     helpText = ''Bytes received by RGW'',
     variableLabels = [''bucket'', ''owner'', ''category'']\<rparr>"

text \<open>The body of the loop over the combined map (lines 213 to 250) and the loop.\<close>

definition appendUsageMetrics :: "time \<Rightarrow> Metric list \<Rightarrow> usageKey \<times> usageValue \<Rightarrow> Metric list" where
  "appendUsageMetrics start metrics kv =
     (case kv of (key, value) \<Rightarrow>
        metrics @
        [MustNewConstMetric opsTotal CounterValue (Float64_of_int64 (OpsTotal value))
           [Bucket key, Owner key, Category key] start,
         MustNewConstMetric opsSuccessful CounterValue (Float64_of_int64 (OpsSuccessful value))
           [Bucket key, Owner key, Category key] start,
         MustNewConstMetric sentBytesTotal CounterValue (Float64_of_int64 (SentBytesTotal value))
           [Bucket key, Owner key, Category key] start,
         MustNewConstMetric receivedBytesTotal CounterValue
           (Float64_of_int64 (ReceivedBytesTotal value))
           [Bucket key, Owner key, Category key] start])"

definition usageMetrics :: "time \<Rightarrow> usageMap \<Rightarrow> Metric list" where
  "usageMetrics start visited = foldl (appendUsageMetrics start) [] visited"

section \<open>The fetchers of ceph\_stats.go\<close>

text \<open>
  The signed HTTP client and \<open>encoding/json\<close> are outside the program. One admin request
  is described by what each outside call answers: the error, if any, of \<open>rgwURL.Parse\<close>,
  \<open>http.NewRequest\<close>, \<open>signer.Sign\<close>, \<open>client.Do\<close>, \<open>io.ReadAll\<close> and
  \<open>resp.Body.Close\<close>, and the status and the body of the response. Errors are strings:
  \<open>fmt.Errorf("... - %w", err)\<close> puts the message in front.
\<close>

record exchange =
  parseErr :: "string option"
  newRequestErr :: "string option"
  signErr :: "string option"
  doErr :: "string option"
  readErr :: "string option"
  closeErr :: "string option"
  Status :: string
  StatusCode :: int
  respBody :: string

definition StatusOK :: int where
  "StatusOK = 200"

definition queryCephAdminAPI :: "exchange \<Rightarrow> string + string" where
  "queryCephAdminAPI x =
     (case newRequestErr x of
        Some err \<Rightarrow> Inl (''failed to create request - '' @ err)
      | None \<Rightarrow>
     (case signErr x of
        Some err \<Rightarrow> Inl (''failed to sign request - '' @ err)
      | None \<Rightarrow>
     (case doErr x of
        Some err \<Rightarrow> Inl (''failed to do request - '' @ err)
      | None \<Rightarrow>
     (case readErr x of
        Some err \<Rightarrow> Inl (''failed to read response body - '' @ err)
      | None \<Rightarrow>
     (case closeErr x of
        Some err \<Rightarrow> Inl (''failed to close response body - '' @ err)
      | None \<Rightarrow>
        if StatusCode x \<noteq> StatusOK
        then Inl (''server returned '' @ Status x @ '' - Body: '' @ respBody x)
        else Inr (respBody x))))))"

text \<open>
  \<open>json.Unmarshal\<close> into a value of type \<open>'a\<close> is a parameter: it answers an error or
  the decoded value.
\<close>

type_synonym 'a unmarshal = "string \<Rightarrow> string + 'a"

definition getCephUsageStats :: "exchange \<Rightarrow> usageResponse unmarshal \<Rightarrow> string + usageResponse" where
  "getCephUsageStats x unmarshal =
     (case parseErr x of
        Some err \<Rightarrow> Inl (''failed to construct admin URL from ceph URL - '' @ err)
      | None \<Rightarrow>
     (case queryCephAdminAPI x of
        Inl err \<Rightarrow> Inl (''failed to get usage stats from ceph - '' @ err)
      | Inr resp \<Rightarrow>
     (case unmarshal resp of
        Inl err \<Rightarrow> Inl (''failed to unmarshall ceph usage response - '' @ err)
      | Inr usage \<Rightarrow> Inr usage)))"

definition getCephBucketStats :: "exchange \<Rightarrow> bucketInfoEntry list unmarshal \<Rightarrow> string + bucketInfoEntry list" where
  "getCephBucketStats x unmarshal =
     (case parseErr x of
        Some err \<Rightarrow> Inl (''failed to construct admin URL from ceph URL - '' @ err)
      | None \<Rightarrow>
     (case queryCephAdminAPI x of
        Inl err \<Rightarrow> Inl (''failed to get bucket stats from ceph - '' @ err)
      | Inr resp \<Rightarrow>
     (case unmarshal resp of
        Inl err \<Rightarrow> Inl (''failed to unmarshall ceph bucket response - '' @ err)
      | Inr bucketStats \<Rightarrow> Inr bucketStats)))"

text \<open>\<open>getUserList\<close> returns the \<open>Keys\<close> of the decoded \<open>userListResponse\<close>.\<close>

record userListResponse =
  Keys :: "string list"

definition getUserList :: "exchange \<Rightarrow> userListResponse unmarshal \<Rightarrow> string + string list" where
  "getUserList x unmarshal =
     (case parseErr x of
        Some err \<Rightarrow> Inl (''failed to construct admin URL from ceph URL - '' @ err)
      | None \<Rightarrow>
     (case queryCephAdminAPI x of
        Inl err \<Rightarrow> Inl (''failed to get user list from ceph - '' @ err)
      | Inr resp \<Rightarrow>
     (case unmarshal resp of
        Inl err \<Rightarrow> Inl (''failed to unmarshall ceph user list response - '' @ err)
      | Inr userList \<Rightarrow> Inr (Keys userList))))"

text \<open>
  \<open>statsMap\<close> is a Go map from user id to \<open>userStats\<close>, kept as an association list
  like \<open>combinedUsageStats\<close>. The loop of \<open>getCephUserQuotaStats\<close> issues one request
  per user, in the order of the list; the request of the \<open>i\<close>-th iteration (from 0), for
  user id \<open>user\<close>, is \<open>lookups i user\<close>. The first failure returns.
\<close>

type_synonym statsMap = "(string \<times> userStats) list"

fun userQuotaLoop ::
  "(nat \<Rightarrow> string \<Rightarrow> exchange) \<Rightarrow> userStats unmarshal \<Rightarrow> nat \<Rightarrow> statsMap \<Rightarrow> string list \<Rightarrow> string + statsMap" where
  "userQuotaLoop lookups unmarshal i statsMap [] = Inr statsMap"
| "userQuotaLoop lookups unmarshal i statsMap (user # users) =
     (case parseErr (lookups i user) of
        Some err \<Rightarrow> Inl (''failed to construct admin URL from ceph URL - '' @ err)
      | None \<Rightarrow>
     (case queryCephAdminAPI (lookups i user) of
        Inl err \<Rightarrow> Inl (''failed to get user stats from ceph - '' @ err)
      | Inr resp \<Rightarrow>
     (case unmarshal resp of
        Inl err \<Rightarrow> Inl (''failed to unmarshall ceph user stats response - '' @ err)
      | Inr stats \<Rightarrow>
          userQuotaLoop lookups unmarshal (Suc i) (AList.update user stats statsMap) users)))"

definition getCephUserQuotaStats ::
  "exchange \<Rightarrow> userListResponse unmarshal \<Rightarrow> (nat \<Rightarrow> string \<Rightarrow> exchange) \<Rightarrow> userStats unmarshal \<Rightarrow> string + statsMap" where
  "getCephUserQuotaStats listExchange unmarshalList lookups unmarshalStats =
     (case getUserList listExchange unmarshalList of
        Inl err \<Rightarrow> Inl err
      | Inr users \<Rightarrow> userQuotaLoop lookups unmarshalStats 0 [] users)"

section \<open>The bucket and user series\<close>

subsection \<open>The descriptors of newBucketsCollector and newUserInfoCollector\<close>

definition bucketUsedBytes :: Desc where
  "bucketUsedBytes = \<lparr>fqName = ''radosgw_usage_bucket_bytes'',
     helpText = ''Bucket used bytes'',
     variableLabels = [''bucket'', ''owner'', ''zonegroup'']\<rparr>"

definition bucketUtilizedBytes :: Desc where
  "bucketUtilizedBytes = \<lparr>fqName = ''radosgw_usage_bucket_utilized_bytes'',
     helpText = ''Bucket utilized bytes'',
     variableLabels = [''bucket'', ''owner'', ''zonegroup'']\<rparr>"

definition bucketObjectCount :: Desc where
  "bucketObjectCount = \<lparr>fqName = ''radosgw_usage_bucket_objects'',
     helpText = ''Number of objects in the bucket'',
     variableLabels = [''bucket'', ''owner'', ''zonegroup'']\<rparr>"

definition bucketShardCount :: Desc where
  "bucketShardCount = \<lparr>fqName = ''radosgw_usage_bucket_shards'',
     helpText = ''Number of index shards for the bucket'',
     variableLabels = [''bucket'', ''owner'', ''zonegroup'']\<rparr>"

definition bucketQuotaEnabled :: Desc where
  "bucketQuotaEnabled = \<lparr>fqName = ''radosgw_usage_bucket_quota_enabled'',
     helpText = ''Whether a quota is enabled for the bucket'',
     variableLabels = [''bucket'', ''owner'', ''zonegroup'']\<rparr>"

definition bucketQuotaMaxSizeBytes :: Desc where
  "bucketQuotaMaxSizeBytes = \<lparr>fqName = ''radosgw_usage_bucket_quota_size_bytes'',
     helpText = ''Maximum allowed size of the bucket'',
     variableLabels = [''bucket'', ''owner'', ''zonegroup'']\<rparr>"

definition bucketQuotaMaxObjectCount :: Desc where
  "bucketQuotaMaxObjectCount = \<lparr>fqName = ''radosgw_usage_bucket_quota_size_objects'',
     helpText = ''Maximum allowed number of objects in the bucket'',
     variableLabels = [''bucket'', ''owner'', ''zonegroup'']\<rparr>"

definition userQuotaEnabled :: Desc where
  "userQuotaEnabled = \<lparr>fqName = ''radosgw_usage_user_quota_enabled'',
     helpText = ''Whether a quota is enabled for the user'',
     variableLabels = [''user'']\<rparr>"

definition userQuotaMaxSizeBytes :: Desc where
  "userQuotaMaxSizeBytes = \<lparr>fqName = ''radosgw_usage_user_quota_size_bytes'',
     helpText = ''Maximum allowed size for the user'',
     variableLabels = [''user'']\<rparr>"

definition userQuotaMaxObjects :: Desc where
  "userQuotaMaxObjects = \<lparr>fqName = ''radosgw_usage_user_quota_size_objects'',
     helpText = ''Maximum allowed number of objects for the user'',
     variableLabels = [''user'']\<rparr>"

subsection \<open>The loops that build the series\<close>

text \<open>
  The body of the loop over \<open>bucketStats\<close> (lines 383 to 460): the shard count, the
  three usage series when the \<open>Usage\<close> map has the key \<open>rgw.main\<close>, the three quota
  series. \<open>quotaEnabled\<close> is the local \<open>bucketQuotaEnabled\<close>.
\<close>

definition appendBucketMetrics :: "time \<Rightarrow> Metric list \<Rightarrow> bucketInfoEntry \<Rightarrow> Metric list" where
  "appendBucketMetrics start metrics bucketInfo =
     (let metrics = metrics @
            [MustNewConstMetric bucketShardCount GaugeValue
               (Float64_of_NumShards (NumShards bucketInfo))
               [infoName bucketInfo, infoOwner bucketInfo, ZoneGroup bucketInfo] start];
          metrics =
            (case Usage bucketInfo ''rgw.main'' of
               Some usage \<Rightarrow> metrics @
                 [MustNewConstMetric bucketUsedBytes GaugeValue (Float64_of_uint64 (Size usage))
                    [infoName bucketInfo, infoOwner bucketInfo, ZoneGroup bucketInfo] start,
                  MustNewConstMetric bucketUtilizedBytes GaugeValue
                    (Float64_of_uint64 (UtilizedSize usage))
                    [infoName bucketInfo, infoOwner bucketInfo, ZoneGroup bucketInfo] start,
                  MustNewConstMetric bucketObjectCount GaugeValue
                    (Float64_of_uint64 (NumObjects usage))
                    [infoName bucketInfo, infoOwner bucketInfo, ZoneGroup bucketInfo] start]
             | None \<Rightarrow> metrics);
          quotaEnabled = (if \<not> Enabled (Quota bucketInfo) then Lit_0_0 else Lit_1_0)
      in metrics @
           [MustNewConstMetric bucketQuotaEnabled GaugeValue quotaEnabled
              [infoName bucketInfo, infoOwner bucketInfo, ZoneGroup bucketInfo] start,
            MustNewConstMetric bucketQuotaMaxSizeBytes GaugeValue
              (Float64_of_int64 (MaxSize (Quota bucketInfo)))
              [infoName bucketInfo, infoOwner bucketInfo, ZoneGroup bucketInfo] start,
            MustNewConstMetric bucketQuotaMaxObjectCount GaugeValue
              (Float64_of_int64 (MaxObjects (Quota bucketInfo)))
              [infoName bucketInfo, infoOwner bucketInfo, ZoneGroup bucketInfo] start])"

definition bucketMetrics :: "time \<Rightarrow> bucketInfoEntry list \<Rightarrow> Metric list" where
  "bucketMetrics start bucketStats = foldl (appendBucketMetrics start) [] bucketStats"

text \<open>The body of the loop over \<open>userQuotaInfo\<close> (lines 561 to 594) and the loop.\<close>

definition appendUserMetrics :: "time \<Rightarrow> Metric list \<Rightarrow> string \<times> userStats \<Rightarrow> Metric list" where
  "appendUserMetrics start metrics kv =
     (case kv of (userName, quotaInfo) \<Rightarrow>
        (let quotaEnabled = (if \<not> userEnabled quotaInfo then Lit_0_0 else Lit_1_0)
         in metrics @
              [MustNewConstMetric userQuotaEnabled GaugeValue quotaEnabled [userName] start,
               MustNewConstMetric userQuotaMaxSizeBytes GaugeValue
                 (Float64_of_int64 (userMaxSize quotaInfo)) [userName] start,
               MustNewConstMetric userQuotaMaxObjects GaugeValue
                 (Float64_of_int64 (userMaxObjects quotaInfo)) [userName] start]))"

definition userMetrics :: "time \<Rightarrow> statsMap \<Rightarrow> Metric list" where
  "userMetrics start visited = foldl (appendUserMetrics start) [] visited"

section \<open>The collectors\<close>

text \<open>
  The state of \<open>RGWMetrics\<close>: the \<open>metrics\<close> slice of each of the three collectors (the
  published snapshot), the gauge vector \<open>scrapeDurationSeconds\<close> by its label \<open>type\<close>
  (no entry before the first \<open>Set\<close>), and the counter vector \<open>scrapeCountTotal\<close> by its
  labels \<open>type\<close> and \<open>status\<close>, as the number of \<open>Inc\<close> calls so far. Each collector
  holds the two vectors curried with its own \<open>type\<close>: \<open>ops\<close>, \<open>buckets\<close>, \<open>users\<close>.
\<close>

record RGWMetrics =
  ops_metrics :: "Metric list"
  bucketInfo_metrics :: "Metric list"
  userInfo_metrics :: "Metric list"
  scrapeDurationSeconds :: "string \<rightharpoonup> float64"
  scrapeCountTotal :: "string \<times> string \<Rightarrow> nat"

definition NewRGWMetrics :: RGWMetrics where
  "NewRGWMetrics =
     \<lparr>ops_metrics = [], bucketInfo_metrics = [], userInfo_metrics = [],
      scrapeDurationSeconds = Map.empty, scrapeCountTotal = (\<lambda>_. 0)\<rparr>"

definition Set_gauge :: "string \<Rightarrow> float64 \<Rightarrow> RGWMetrics \<Rightarrow> RGWMetrics" where
  "Set_gauge ty v c = c\<lparr>scrapeDurationSeconds := (scrapeDurationSeconds c)(ty \<mapsto> v)\<rparr>"

definition Inc :: "string \<Rightarrow> string \<Rightarrow> RGWMetrics \<Rightarrow> RGWMetrics" where
  "Inc ty status c =
     c\<lparr>scrapeCountTotal := (scrapeCountTotal c)((ty, status) := scrapeCountTotal c (ty, status) + 1)\<rparr>"

text \<open>
  What the outside answers during one cycle of a collector: \<open>time.Now()\<close> at its start,
  \<open>time.Since(start)\<close> when the fetcher has returned, the requests, the decoders, and
  the order in which \<open>range\<close> visits the Go map (Go leaves it unspecified; a permutation
  of the entries).
\<close>

record opsWorld =
  opsNow :: time
  opsSince :: duration
  usageExchange :: exchange
  unmarshalUsage :: "usageResponse unmarshal"
  usageRangeOrder :: "usageMap \<Rightarrow> usageMap"

record bucketsWorld =
  bucketsNow :: time
  bucketsSince :: duration
  bucketExchange :: exchange
  unmarshalBuckets :: "bucketInfoEntry list unmarshal"

record usersWorld =
  usersNow :: time
  usersSince :: duration
  userListExchange :: exchange
  unmarshalUserList :: "userListResponse unmarshal"
  userLookups :: "nat \<Rightarrow> string \<Rightarrow> exchange"
  unmarshalUserStats :: "userStats unmarshal"
  usersRangeOrder :: "statsMap \<Rightarrow> statsMap"

text \<open>
  One cycle: the closure called in the loop of each \<open>FetchMetrics\<close>. The call of
  \<open>log.Errorf\<close> on the error path writes to the logger only and is left out. The last
  step of a successful cycle assigns the new slice under the collector's mutex; how that
  interleaves with \<open>Collect\<close> is the subject of a later section.
\<close>

definition ops_scrape :: "opsWorld \<Rightarrow> RGWMetrics \<Rightarrow> RGWMetrics" where
  "ops_scrape w c =
     (let start = opsNow w;
          r = getCephUsageStats (usageExchange w) (unmarshalUsage w);
          c = Set_gauge ''ops'' (Seconds (opsSince w)) c
      in case r of
           Inl err \<Rightarrow> Inc ''ops'' ''error'' c
         | Inr usageStats \<Rightarrow>
             (let c = Inc ''ops'' ''success'' c;
                  combinedUsageStats = combineUsage usageStats;
                  metrics = usageMetrics start (usageRangeOrder w combinedUsageStats)
              in c\<lparr>ops_metrics := metrics\<rparr>))"

definition buckets_scrape :: "bucketsWorld \<Rightarrow> RGWMetrics \<Rightarrow> RGWMetrics" where
  "buckets_scrape w c =
     (let start = bucketsNow w;
          r = getCephBucketStats (bucketExchange w) (unmarshalBuckets w);
          c = Set_gauge ''buckets'' (Seconds (bucketsSince w)) c
      in case r of
           Inl err \<Rightarrow> Inc ''buckets'' ''error'' c
         | Inr bucketStats \<Rightarrow>
             (let c = Inc ''buckets'' ''success'' c;
                  metrics = bucketMetrics start bucketStats
              in c\<lparr>bucketInfo_metrics := metrics\<rparr>))"

definition users_scrape :: "usersWorld \<Rightarrow> RGWMetrics \<Rightarrow> RGWMetrics" where
  "users_scrape w c =
     (let start = usersNow w;
          r = getCephUserQuotaStats (userListExchange w) (unmarshalUserList w)
                (userLookups w) (unmarshalUserStats w);
          c = Set_gauge ''users'' (Seconds (usersSince w)) c
      in case r of
           Inl err \<Rightarrow> Inc ''users'' ''error'' c
         | Inr userQuotaInfo \<Rightarrow>
             (let c = Inc ''users'' ''success'' c;
                  metrics = userMetrics start (usersRangeOrder w userQuotaInfo)
              in c\<lparr>userInfo_metrics := metrics\<rparr>))"

text \<open>\<open>Collect\<close>: the metrics sent on the channel, in order.\<close>

definition ops_Collect :: "RGWMetrics \<Rightarrow> Metric list" where
  "ops_Collect c = foldl (\<lambda>ch metric. ch @ [metric]) [] (ops_metrics c)"

definition buckets_Collect :: "RGWMetrics \<Rightarrow> Metric list" where
  "buckets_Collect c = foldl (\<lambda>ch metric. ch @ [metric]) [] (bucketInfo_metrics c)"

definition users_Collect :: "RGWMetrics \<Rightarrow> Metric list" where
  "users_Collect c = foldl (\<lambda>ch metric. ch @ [metric]) [] (userInfo_metrics c)"

section \<open>The scheduling loop of FetchMetrics\<close>

text \<open>
  The three \<open>FetchMetrics\<close> methods create a ticker and run the same loop around
  their own closure: return when \<open>ctx.Err()\<close> is not nil, call the closure, then
  \<open>select\<close> on the ticker and on \<open>ctx.Done()\<close>. The loop may run for ever; a run is
  followed along a finite list of iterations, each giving what the outside answers in
  it: whether the context is already cancelled at the head of the loop, the answers to
  the closure, and the case the \<open>select\<close> takes. The result is the trace of the loop so
  far and the state reached; the trace ends with \<open>Return\<close> when the method has
  returned. \<open>time.NewTicker(interval)\<close> panics when the interval is not positive: the
  trace is then \<open>Panic\<close> alone.
\<close>

datatype selected = Tick | Done

record 'w iteration =
  ctxErr :: bool
  world :: 'w
  selected :: selected

datatype event = ScrapeBegin | ScrapeEnd | Select | Return | Panic

fun scrapeLoop :: "('w \<Rightarrow> 's \<Rightarrow> 's) \<Rightarrow> 'w iteration list \<Rightarrow> 's \<Rightarrow> event list \<times> 's" where
  "scrapeLoop scrape [] c = ([], c)"
| "scrapeLoop scrape (it # its) c =
     (if ctxErr it then ([Return], c)
      else (let c = scrape (world it) c
            in case selected it of
                 Done \<Rightarrow> ([ScrapeBegin, ScrapeEnd, Select, Return], c)
               | Tick \<Rightarrow>
                   (case scrapeLoop scrape its c of
                      (es, c') \<Rightarrow> (ScrapeBegin # ScrapeEnd # Select # es, c'))))"

definition ops_FetchMetrics ::
  "duration \<Rightarrow> opsWorld iteration list \<Rightarrow> RGWMetrics \<Rightarrow> event list \<times> RGWMetrics" where
  "ops_FetchMetrics interval its c =
     (if sint interval \<le> 0 then ([Panic], c) else scrapeLoop ops_scrape its c)"

definition buckets_FetchMetrics ::
  "duration \<Rightarrow> bucketsWorld iteration list \<Rightarrow> RGWMetrics \<Rightarrow> event list \<times> RGWMetrics" where
  "buckets_FetchMetrics interval its c =
     (if sint interval \<le> 0 then ([Panic], c) else scrapeLoop buckets_scrape its c)"

definition users_FetchMetrics ::
  "duration \<Rightarrow> usersWorld iteration list \<Rightarrow> RGWMetrics \<Rightarrow> event list \<times> RGWMetrics" where
  "users_FetchMetrics interval its c =
     (if sint interval \<le> 0 then ([Panic], c) else scrapeLoop users_scrape its c)"

section \<open>Collect and the publish under the collector's mutex\<close>

text \<open>
  Each collector embeds a \<open>sync.Mutex\<close>. Two goroutines meet at it: the collector's own,
  at the end of a successful cycle (\<open>c.Lock(); c.metrics = metrics; c.Unlock()\<close>), and
  the registry's, in \<open>Collect\<close> (\<open>c.Lock(); defer c.Unlock()\<close>, then the loop that sends
  each metric of \<open>c.metrics\<close> on \<open>ch\<close>). Their statements interleave. The state holds
  the holder of the mutex, the slice \<open>c.metrics\<close>, where each goroutine stands, and the
  metrics the current \<open>Collect\<close> call has sent on \<open>ch\<close>.
\<close>

datatype goroutine = Publisher | Reader

text \<open>
  The publisher is outside the critical section (\<open>P_idle\<close>), at \<open>c.Lock()\<close> with the new
  slice, at the assignment, or at \<open>c.Unlock()\<close>.
\<close>

datatype publisher_pc = P_idle | P_Lock "Metric list" | P_assign "Metric list" | P_Unlock

text \<open>
  The reader is outside \<open>Collect\<close> (\<open>R_idle\<close>), at \<open>c.Lock()\<close>, or in the \<open>range\<close> loop
  with the metrics still to send (\<open>range\<close> reads \<open>c.metrics\<close> once, when the loop
  starts); with nothing left to send, \<open>Collect\<close> returns and the deferred \<open>c.Unlock()\<close>
  runs.
\<close>

datatype reader_pc = R_idle | R_Lock | R_range "Metric list"

record collector =
  mutex :: "goroutine option"
  metrics :: "Metric list"
  publisher :: publisher_pc
  reader :: reader_pc
  ch :: "Metric list"

text \<open>
  One statement of one goroutine. \<open>Publish new\<close> is the publisher reaching the critical
  section with a new slice; \<open>Call\<close> is the registry calling \<open>Collect\<close>.
\<close>

datatype action =
    Publish "Metric list" | P_locks | P_assigns | P_unlocks
  | Call | R_locks | R_sends | R_unlocks

text \<open>
  \<open>exec a s\<close> is the state after the statement, or \<open>None\<close> when the goroutine is not at
  that statement or the statement blocks (\<open>Lock\<close> on a held mutex).
\<close>

fun exec :: "action \<Rightarrow> collector \<Rightarrow> collector option" where
  "exec (Publish new) s =
     (if publisher s = P_idle then Some (s\<lparr>publisher := P_Lock new\<rparr>) else None)"
| "exec P_locks s =
     (case publisher s of
        P_Lock new \<Rightarrow>
          (if mutex s = None then Some (s\<lparr>mutex := Some Publisher, publisher := P_assign new\<rparr>)
           else None)
      | _ \<Rightarrow> None)"
| "exec P_assigns s =
     (case publisher s of
        P_assign new \<Rightarrow> Some (s\<lparr>metrics := new, publisher := P_Unlock\<rparr>)
      | _ \<Rightarrow> None)"
| "exec P_unlocks s =
     (if publisher s = P_Unlock then Some (s\<lparr>mutex := None, publisher := P_idle\<rparr>) else None)"
| "exec Call s =
     (if reader s = R_idle then Some (s\<lparr>reader := R_Lock, ch := []\<rparr>) else None)"
| "exec R_locks s =
     (if reader s = R_Lock \<and> mutex s = None
      then Some (s\<lparr>mutex := Some Reader, reader := R_range (metrics s)\<rparr>) else None)"
| "exec R_sends s =
     (case reader s of
        R_range (metric # rest) \<Rightarrow> Some (s\<lparr>ch := ch s @ [metric], reader := R_range rest\<rparr>)
      | _ \<Rightarrow> None)"
| "exec R_unlocks s =
     (if reader s = R_range [] then Some (s\<lparr>mutex := None, reader := R_idle\<rparr>) else None)"

text \<open>A schedule is a list of statements; it runs as long as each one can be taken.\<close>

fun run :: "action list \<Rightarrow> collector \<Rightarrow> collector option" where
  "run [] s = Some s"
| "run (a # as) s = (case exec a s of None \<Rightarrow> None | Some s' \<Rightarrow> run as s')"

text \<open>A new collector: \<open>metrics\<close> is the empty slice, the mutex is free.\<close>

definition newCollector :: collector where
  "newCollector = \<lparr>mutex = None, metrics = [], publisher = P_idle, reader = R_idle, ch = []\<rparr>"

section \<open>The vocabulary of the specification\<close>

subsection \<open>Raw usage entries and their sums\<close>

text \<open>
  The raw entries of a usage payload, flattened: one row per category entry, with the
  key the collector gives it (the owner is the \<open>user\<close> of the enclosing entry, the bucket
  the \<open>bucket\<close> of the enclosing bucket entry, the category the entry's own name).
\<close>

definition rawEntries :: "usageResponse \<Rightarrow> (usageKey \<times> usageCategoryEntry) list" where
  "rawEntries usageStats =
     concat (map (\<lambda>entry. concat (map (\<lambda>bucket.
        map (\<lambda>category. (\<lparr>Owner = User entry, Bucket = ID bucket, Category = Name category\<rparr>, category))
          (Categories bucket)) (Buckets entry))) (Entries usageStats))"

text \<open>The raw entries with key \<open>K\<close>, as a multiset: their order plays no part.\<close>

definition entriesOf :: "usageKey \<Rightarrow> usageResponse \<Rightarrow> usageCategoryEntry multiset" where
  "entriesOf K usageStats = image_mset snd (filter_mset (\<lambda>r. fst r = K) (mset (rawEntries usageStats)))"

text \<open>The exact sum, an unbounded integer, of one counter over the raw entries with key \<open>K\<close>.\<close>

definition exactSum :: "(usageCategoryEntry \<Rightarrow> int64) \<Rightarrow> usageKey \<Rightarrow> usageResponse \<Rightarrow> int" where
  "exactSum f K usageStats = (\<Sum>category \<in># entriesOf K usageStats. sint (f category))"

text \<open>An integer as an \<open>int64\<close>: reduced modulo \<open>2 ^ 64\<close> into the range of the type.\<close>

definition int64_of_int :: "int \<Rightarrow> int64" where
  "int64_of_int n = word_of_int n"

text \<open>
  What a snapshot publishes for a series: the values of its metrics with descriptor \<open>d\<close>
  and label values \<open>ls\<close>, in the order of the snapshot.
\<close>

definition published :: "Desc \<Rightarrow> string list \<Rightarrow> Metric list \<Rightarrow> float64 list" where
  "published d ls snapshot = map val (filter (\<lambda>m. desc m = d \<and> labelValues m = ls) snapshot)"

text \<open>
  Two notions for the proofs: the innermost loop body on a flattened row, and the sum of
  a counter in \<open>int64\<close> arithmetic over the rows with key \<open>K\<close>.
\<close>

definition addRaw :: "usageMap \<Rightarrow> usageKey \<times> usageCategoryEntry \<Rightarrow> usageMap" where
  "addRaw m r = addCategory (Owner (fst r)) (Bucket (fst r)) m (snd r\<lparr>Name := Category (fst r)\<rparr>)"

definition wrapSum :: "(usageCategoryEntry \<Rightarrow> int64) \<Rightarrow> usageKey \<Rightarrow> (usageKey \<times> usageCategoryEntry) list \<Rightarrow> int64" where
  "wrapSum f K rows = sum_list (map (\<lambda>r. f (snd r)) (filter (\<lambda>r. fst r = K) rows))"

subsection \<open>Failures of a fetch\<close>

text \<open>
  The request fails in transport when the signed request cannot be built, sent or read
  to its end: one of the outside calls before the status check answers an error.
\<close>

definition transportFails :: "exchange \<Rightarrow> bool" where
  "transportFails x =
     (parseErr x \<noteq> None \<or> newRequestErr x \<noteq> None \<or> signErr x \<noteq> None \<or> doErr x \<noteq> None \<or>
      readErr x \<noteq> None \<or> closeErr x \<noteq> None)"

text \<open>
  A fetch of one payload fails when the transport fails, the status is not 200 OK, or
  the body does not decode.
\<close>

definition fetchFails :: "exchange \<Rightarrow> 'a unmarshal \<Rightarrow> bool" where
  "fetchFails x unmarshal =
     (transportFails x \<or> StatusCode x \<noteq> StatusOK \<or> isl (unmarshal (respBody x)))"

subsection \<open>Labels of a bucket\<close>

definition bucketLabels :: "bucketInfoEntry \<Rightarrow> string list" where
  "bucketLabels bucketInfo = [infoName bucketInfo, infoOwner bucketInfo, ZoneGroup bucketInfo]"

subsection \<open>Runs of the scheduling loop\<close>

text \<open>
  The number of cycles a run executes. It depends on the cancellations and on the cases
  the \<open>select\<close> takes only.
\<close>

fun scrapes :: "'w iteration list \<Rightarrow> nat" where
  "scrapes [] = 0"
| "scrapes (it # its) =
     (if ctxErr it then 0 else (case selected it of Done \<Rightarrow> 1 | Tick \<Rightarrow> Suc (scrapes its)))"

text \<open>The cycles accounted for by a collector: its errors and its successes.\<close>

definition accounted :: "string \<Rightarrow> RGWMetrics \<Rightarrow> nat" where
  "accounted ty c = scrapeCountTotal c (ty, ''error'') + scrapeCountTotal c (ty, ''success'')"

subsection \<open>The discipline of the mutex\<close>

text \<open>
  What holds in every state a schedule reaches: a goroutine inside its critical section
  holds the mutex, and no other does; and the reader in its loop has sent, together with
  what it still has to send, exactly the current snapshot.
\<close>

definition lockDiscipline :: "collector \<Rightarrow> bool" where
  "lockDiscipline s =
     ((case reader s of
         R_range rest \<Rightarrow> mutex s = Some Reader \<and> ch s @ rest = metrics s
       | R_Lock \<Rightarrow> mutex s \<noteq> Some Reader \<and> ch s = []
       | R_idle \<Rightarrow> mutex s \<noteq> Some Reader) \<and>
      (case publisher s of
         P_assign new \<Rightarrow> mutex s = Some Publisher
       | P_Unlock \<Rightarrow> mutex s = Some Publisher
       | _ \<Rightarrow> mutex s \<noteq> Some Publisher))"

section \<open>Concrete inputs\<close>

subsection \<open>Requests\<close>

text \<open>A request that succeeds with status 200 and the given body.\<close>

definition okExchange :: "string \<Rightarrow> exchange" where
  "okExchange body =
     \<lparr>parseErr = None, newRequestErr = None, signErr = None, doErr = None, readErr = None,
      closeErr = None, Status = ''200 OK'', StatusCode = 200, respBody = body\<rparr>"

text \<open>A request that fails in transport: \<open>client.Do\<close> answers an error.\<close>

definition refusedExchange :: exchange where
  "refusedExchange =
     \<lparr>parseErr = None, newRequestErr = None, signErr = None,
      doErr = Some ''dial tcp: connection refused'', readErr = None,
      closeErr = None, Status = [], StatusCode = 0, respBody = []\<rparr>"

subsection \<open>Usage payloads and cycles of the usage collector\<close>

text \<open>
  The payload of the specification's example: two rows with the key (alice, b1, put\_obj),
  with ops 3 and 4, successful ops 3 and 3, bytes sent 100 and 50.
\<close>

definition exampleUsage :: usageResponse where
  "exampleUsage =
     \<lparr>Entries = [\<lparr>User = ''alice'', Buckets = [\<lparr>ID = ''b1'', bucketOwner = ''alice'', Categories =
        [\<lparr>Name = ''put_obj'', BytesSent = 100, BytesReceived = 0, Ops = 3, SuccessfulOps = 3\<rparr>,
         \<lparr>Name = ''put_obj'', BytesSent = 50, BytesReceived = 0, Ops = 4, SuccessfulOps = 3\<rparr>]\<rparr>]\<rparr>]\<rparr>"

definition aliceKey :: usageKey where
  "aliceKey = \<lparr>Owner = ''alice'', Bucket = ''b1'', Category = ''put_obj''\<rparr>"

text \<open>Two rows with the same key whose ops, \<open>2 ^ 62\<close> each, add up to \<open>2 ^ 63\<close>.\<close>

definition overflowUsage :: usageResponse where
  "overflowUsage =
     \<lparr>Entries = [\<lparr>User = ''alice'', Buckets = [\<lparr>ID = ''b1'', bucketOwner = ''alice'', Categories =
        [\<lparr>Name = ''put_obj'', BytesSent = 0, BytesReceived = 0,
          Ops = 4611686018427387904, SuccessfulOps = 0\<rparr>,
         \<lparr>Name = ''put_obj'', BytesSent = 0, BytesReceived = 0,
          Ops = 4611686018427387904, SuccessfulOps = 0\<rparr>]\<rparr>]\<rparr>]\<rparr>"

text \<open>A usage payload with no entries.\<close>

definition emptyUsage :: usageResponse where
  "emptyUsage = \<lparr>Entries = []\<rparr>"

text \<open>
  A cycle of the usage collector in which the fetch answers the given payload and
  \<open>range\<close> visits the combined map in reverse; and one in which the connection is refused.
\<close>

definition opsWorldOf :: "usageResponse \<Rightarrow> opsWorld" where
  "opsWorldOf usageStats =
     \<lparr>opsNow = 1000, opsSince = 5, usageExchange = okExchange ''{}'',
      unmarshalUsage = (\<lambda>resp. Inr usageStats), usageRangeOrder = rev\<rparr>"

definition failingOpsWorld :: opsWorld where
  "failingOpsWorld = (opsWorldOf exampleUsage)\<lparr>usageExchange := refusedExchange\<rparr>"

subsection \<open>Buckets and cycles of the bucket collector\<close>

text \<open>A bucket with the usage category \<open>rgw.main\<close> and an enabled quota.\<close>

definition exampleBucket :: bucketInfoEntry where
  "exampleBucket =
     \<lparr>infoName = ''b1'', infoOwner = ''alice'', ZoneGroup = ''zg'', NumShards = 11,
      Usage = [''rgw.main'' \<mapsto> \<lparr>Size = 4096, UtilizedSize = 4000, NumObjects = 3\<rparr>],
      Quota = \<lparr>Enabled = True, MaxSize = 1048576, MaxObjects = 100\<rparr>\<rparr>"

text \<open>A bucket with a disabled quota and limits zero and minus one, and no usage at all.\<close>

definition disabledBucket :: bucketInfoEntry where
  "disabledBucket =
     \<lparr>infoName = ''b3'', infoOwner = ''carol'', ZoneGroup = ''zg'', NumShards = 1,
      Usage = Map.empty,
      Quota = \<lparr>Enabled = False, MaxSize = 0, MaxObjects = - 1\<rparr>\<rparr>"

text \<open>A bucket whose usage map has the key \<open>main\<close> and not the key \<open>rgw.main\<close>.\<close>

definition mainOnlyBucket :: bucketInfoEntry where
  "mainOnlyBucket =
     \<lparr>infoName = ''b2'', infoOwner = ''bob'', ZoneGroup = ''zg'', NumShards = 2,
      Usage = [''main'' \<mapsto> \<lparr>Size = 10, UtilizedSize = 9, NumObjects = 1\<rparr>],
      Quota = \<lparr>Enabled = False, MaxSize = - 1, MaxObjects = - 1\<rparr>\<rparr>"

text \<open>
  A cycle of the bucket collector with the given request, whose body decodes to the given
  buckets; and one in which the connection is refused.
\<close>

definition bucketsWorldOf :: "exchange \<Rightarrow> bucketInfoEntry list \<Rightarrow> bucketsWorld" where
  "bucketsWorldOf x bucketStats =
     \<lparr>bucketsNow = 2000, bucketsSince = 7, bucketExchange = x,
      unmarshalBuckets = (\<lambda>resp. Inr bucketStats)\<rparr>"

definition failingBucketsWorld :: bucketsWorld where
  "failingBucketsWorld = bucketsWorldOf refusedExchange [exampleBucket]"

subsection \<open>Users and cycles of the user collector\<close>

definition exampleUserStats :: userStats where
  "exampleUserStats = \<lparr>userEnabled = True, userMaxSize = 1024, userMaxObjects = - 1\<rparr>"

definition fiveUsers :: "string list" where
  "fiveUsers = [''u1'', ''u2'', ''u3'', ''u4'', ''u5'']"

text \<open>Lookups that all succeed, and lookups of which the third (index 2) is refused.\<close>

definition allLookupsOk :: "nat \<Rightarrow> string \<Rightarrow> exchange" where
  "allLookupsOk i user = okExchange ''{}''"

definition thirdLookupFails :: "nat \<Rightarrow> string \<Rightarrow> exchange" where
  "thirdLookupFails i user = (if i = 2 then refusedExchange else okExchange ''{}'')"

text \<open>
  A cycle of the user collector with the given request for the list, whose body decodes
  to the given users, and the given lookups, whose bodies decode to the same quota;
  \<open>range\<close> visits the map in reverse.
\<close>

definition usersWorldOf :: "exchange \<Rightarrow> string list \<Rightarrow> (nat \<Rightarrow> string \<Rightarrow> exchange) \<Rightarrow> usersWorld" where
  "usersWorldOf x users lookups =
     \<lparr>usersNow = 3000, usersSince = 9, userListExchange = x,
      unmarshalUserList = (\<lambda>resp. Inr \<lparr>Keys = users\<rparr>),
      userLookups = lookups,
      unmarshalUserStats = (\<lambda>resp. Inr exampleUserStats),
      usersRangeOrder = rev\<rparr>"

definition failingUsersWorld :: usersWorld where
  "failingUsersWorld = usersWorldOf (okExchange ''{}'') fiveUsers thirdLookupFails"

subsection \<open>States and runs\<close>

text \<open>The state after one successful cycle of each of the three collectors.\<close>

definition publishedOnce :: RGWMetrics where
  "publishedOnce =
     users_scrape (usersWorldOf (okExchange ''{}'') fiveUsers allLookupsOk)
       (buckets_scrape (bucketsWorldOf (okExchange ''[]'') [exampleBucket])
          (ops_scrape (opsWorldOf exampleUsage) NewRGWMetrics))"

text \<open>The default interval of the exporter, one minute, in nanoseconds.\<close>

definition oneMinute :: duration where
  "oneMinute = 60000000000"

text \<open>An iteration in which the context is not cancelled and the \<open>select\<close> takes the tick.\<close>

definition tickIteration :: "'w \<Rightarrow> 'w iteration" where
  "tickIteration w = \<lparr>ctxErr = False, world = w, selected = Tick\<rparr>"

text \<open>A run of the usage collector: a failed cycle, a successful one, a failed one.\<close>

definition failOkFail :: "opsWorld iteration list" where
  "failOkFail =
     [tickIteration failingOpsWorld, tickIteration (opsWorldOf exampleUsage),
      tickIteration failingOpsWorld]"

subsection \<open>A schedule of the reader and the publisher\<close>

definition metricA :: Metric where
  "metricA = MustNewConstMetric opsTotal CounterValue (Float64_of_int64 7)
     [''b1'', ''alice'', ''put_obj''] 1000"

definition metricB :: Metric where
  "metricB = MustNewConstMetric opsSuccessful CounterValue (Float64_of_int64 6)
     [''b1'', ''alice'', ''put_obj''] 1000"

text \<open>
  A snapshot of two metrics is published; \<open>Collect\<close> is called, takes the mutex and sends
  the first metric; a new snapshot is ready to be published.
\<close>

definition readerMidway :: "action list" where
  "readerMidway =
     [Publish [metricA, metricB], P_locks, P_assigns, P_unlocks,
      Call, R_locks, R_sends, Publish []]"

section \<open>The cycles and the fetchers: basic facts\<close>

lemma Collect_eq:
  "ops_Collect c = ops_metrics c" "buckets_Collect c = bucketInfo_metrics c"
  "users_Collect c = userInfo_metrics c"
proof -
  have "foldl (\<lambda>ch metric. ch @ [metric]) acc ms = acc @ ms" for acc ms :: "Metric list"
    by (induction ms arbitrary: acc) simp_all
  then show "ops_Collect c = ops_metrics c" "buckets_Collect c = bucketInfo_metrics c"
    "users_Collect c = userInfo_metrics c"
    by (simp_all add: ops_Collect_def buckets_Collect_def users_Collect_def)
qed

lemma ops_scrape_error:
  "isl (getCephUsageStats (usageExchange w) (unmarshalUsage w)) \<Longrightarrow>
     ops_scrape w c = Inc ''ops'' ''error'' (Set_gauge ''ops'' (Seconds (opsSince w)) c)"
  by (cases "getCephUsageStats (usageExchange w) (unmarshalUsage w)")
    (simp_all add: ops_scrape_def Let_def)

lemma buckets_scrape_error:
  "isl (getCephBucketStats (bucketExchange w) (unmarshalBuckets w)) \<Longrightarrow>
     buckets_scrape w c = Inc ''buckets'' ''error'' (Set_gauge ''buckets'' (Seconds (bucketsSince w)) c)"
  by (cases "getCephBucketStats (bucketExchange w) (unmarshalBuckets w)")
    (simp_all add: buckets_scrape_def Let_def)

lemma users_scrape_error:
  "isl (getCephUserQuotaStats (userListExchange w) (unmarshalUserList w) (userLookups w)
        (unmarshalUserStats w)) \<Longrightarrow>
     users_scrape w c = Inc ''users'' ''error'' (Set_gauge ''users'' (Seconds (usersSince w)) c)"
  by (cases "getCephUserQuotaStats (userListExchange w) (unmarshalUserList w) (userLookups w)
        (unmarshalUserStats w)")
    (simp_all add: users_scrape_def Let_def)

lemma ops_scrape_ok:
  "getCephUsageStats (usageExchange w) (unmarshalUsage w) = Inr usageStats \<Longrightarrow>
     ops_scrape w c =
       (Inc ''ops'' ''success'' (Set_gauge ''ops'' (Seconds (opsSince w)) c))
         \<lparr>ops_metrics := usageMetrics (opsNow w) (usageRangeOrder w (combineUsage usageStats))\<rparr>"
  by (simp add: ops_scrape_def Let_def)

lemma buckets_scrape_ok:
  "getCephBucketStats (bucketExchange w) (unmarshalBuckets w) = Inr bucketStats \<Longrightarrow>
     buckets_scrape w c =
       (Inc ''buckets'' ''success'' (Set_gauge ''buckets'' (Seconds (bucketsSince w)) c))
         \<lparr>bucketInfo_metrics := bucketMetrics (bucketsNow w) bucketStats\<rparr>"
  by (simp add: buckets_scrape_def Let_def)

lemma users_scrape_ok:
  "getCephUserQuotaStats (userListExchange w) (unmarshalUserList w) (userLookups w)
        (unmarshalUserStats w) = Inr userQuotaInfo \<Longrightarrow>
     users_scrape w c =
       (Inc ''users'' ''success'' (Set_gauge ''users'' (Seconds (usersSince w)) c))
         \<lparr>userInfo_metrics := userMetrics (usersNow w) (usersRangeOrder w userQuotaInfo)\<rparr>"
  by (simp add: users_scrape_def Let_def)

lemma Inc_simps:
  "ops_metrics (Inc ty st c) = ops_metrics c"
  "bucketInfo_metrics (Inc ty st c) = bucketInfo_metrics c"
  "userInfo_metrics (Inc ty st c) = userInfo_metrics c"
  "scrapeDurationSeconds (Inc ty st c) = scrapeDurationSeconds c"
  "scrapeCountTotal (Inc ty st c) (ty', st') =
     (if ty' = ty \<and> st' = st then scrapeCountTotal c (ty, st) + 1 else scrapeCountTotal c (ty', st'))"
  by (simp_all add: Inc_def)

lemma Set_gauge_simps:
  "ops_metrics (Set_gauge ty v c) = ops_metrics c"
  "bucketInfo_metrics (Set_gauge ty v c) = bucketInfo_metrics c"
  "userInfo_metrics (Set_gauge ty v c) = userInfo_metrics c"
  "scrapeCountTotal (Set_gauge ty v c) = scrapeCountTotal c"
  "scrapeDurationSeconds (Set_gauge ty v c) ty' =
     (if ty' = ty then Some v else scrapeDurationSeconds c ty')"
  by (simp_all add: Set_gauge_def)

lemma isl_queryCephAdminAPI:
  "isl (queryCephAdminAPI x) =
     (newRequestErr x \<noteq> None \<or> signErr x \<noteq> None \<or> doErr x \<noteq> None \<or> readErr x \<noteq> None \<or>
      closeErr x \<noteq> None \<or> StatusCode x \<noteq> StatusOK)"
  by (simp add: queryCephAdminAPI_def split: option.splits)

lemma queryCephAdminAPI_Inr: "queryCephAdminAPI x = Inr resp \<Longrightarrow> resp = respBody x"
  by (simp add: queryCephAdminAPI_def split: option.splits if_splits)

lemma queryCephAdminAPI_cases:
  obtains (failed) err where "queryCephAdminAPI x = Inl err"
      "newRequestErr x \<noteq> None \<or> signErr x \<noteq> None \<or> doErr x \<noteq> None \<or> readErr x \<noteq> None \<or>
       closeErr x \<noteq> None \<or> StatusCode x \<noteq> StatusOK"
  | (ok) "queryCephAdminAPI x = Inr (respBody x)"
      "newRequestErr x = None" "signErr x = None" "doErr x = None" "readErr x = None"
      "closeErr x = None" "StatusCode x = StatusOK"
proof (cases "queryCephAdminAPI x")
  case (Inl err)
  moreover from Inl have "isl (queryCephAdminAPI x)" by simp
  ultimately show ?thesis
    unfolding isl_queryCephAdminAPI by (rule failed)
next
  case (Inr resp)
  then have "\<not> isl (queryCephAdminAPI x)" by simp
  with Inr queryCephAdminAPI_Inr [OF Inr] show ?thesis
    unfolding isl_queryCephAdminAPI by (intro ok) simp_all
qed

lemma isl_getCephUsageStats:
  "isl (getCephUsageStats x unmarshal) = fetchFails x unmarshal"
  by (cases x rule: queryCephAdminAPI_cases)
    (auto simp: getCephUsageStats_def fetchFails_def transportFails_def
      split: option.splits sum.splits)

lemma isl_getCephBucketStats:
  "isl (getCephBucketStats x unmarshal) = fetchFails x unmarshal"
  by (cases x rule: queryCephAdminAPI_cases)
    (auto simp: getCephBucketStats_def fetchFails_def transportFails_def
      split: option.splits sum.splits)

lemma isl_getUserList:
  "isl (getUserList x unmarshal) = fetchFails x unmarshal"
  by (cases x rule: queryCephAdminAPI_cases)
    (auto simp: getUserList_def fetchFails_def transportFails_def
      split: option.splits sum.splits)

text \<open>One iteration of the loop over the users: it fails, or goes on with the updated map.\<close>

lemma userQuotaLoop_fails:
  "fetchFails (lookups i user) unmarshal \<Longrightarrow>
     isl (userQuotaLoop lookups unmarshal i statsMap (user # users))"
  by (cases "lookups i user" rule: queryCephAdminAPI_cases)
    (auto simp: fetchFails_def transportFails_def split: option.splits sum.splits)

lemma userQuotaLoop_continues:
  "\<not> fetchFails (lookups i user) unmarshal \<Longrightarrow>
     userQuotaLoop lookups unmarshal i statsMap (user # users) =
       userQuotaLoop lookups unmarshal (Suc i)
         (AList.update user (projr (unmarshal (respBody (lookups i user)))) statsMap) users"
  by (cases "lookups i user" rule: queryCephAdminAPI_cases)
    (auto simp: fetchFails_def transportFails_def split: option.splits sum.splits)

lemma isl_userQuotaLoop:
  "isl (userQuotaLoop lookups unmarshal i statsMap users) =
     (\<exists>j < length users. fetchFails (lookups (i + j) (users ! j)) unmarshal)"
proof (induction users arbitrary: i statsMap)
  case Nil
  show ?case by simp
next
  case (Cons user users)
  show ?case
  proof (cases "fetchFails (lookups i user) unmarshal")
    case True
    then have "isl (userQuotaLoop lookups unmarshal i statsMap (user # users))"
      by (rule userQuotaLoop_fails)
    moreover from True have "\<exists>j < length (user # users).
        fetchFails (lookups (i + j) ((user # users) ! j)) unmarshal"
      by (intro exI [of _ 0]) simp
    ultimately show ?thesis by simp
  next
    case False
    have "(\<exists>j < length (user # users). fetchFails (lookups (i + j) ((user # users) ! j)) unmarshal) =
          (\<exists>j < length users. fetchFails (lookups (Suc i + j) (users ! j)) unmarshal)"
      (is "?L = ?R")
    proof
      assume ?L
      then obtain j where j: "j < length (user # users)"
        "fetchFails (lookups (i + j) ((user # users) ! j)) unmarshal" by blast
      with False obtain j' where "j = Suc j'" by (cases j) auto
      with j show ?R by auto
    next
      assume ?R
      then obtain j where "j < length users" "fetchFails (lookups (Suc i + j) (users ! j)) unmarshal"
        by blast
      then show ?L by (intro exI [of _ "Suc j"]) simp
    qed
    then show ?thesis
      by (simp only: userQuotaLoop_continues [of lookups i user unmarshal, OF False] Cons.IH)
  qed
qed

lemma isl_getCephUserQuotaStats:
  "isl (getCephUserQuotaStats x unmarshalList lookups unmarshalStats) =
     (fetchFails x unmarshalList \<or>
      (\<exists>users. getUserList x unmarshalList = Inr users \<and>
         (\<exists>i < length users. fetchFails (lookups i (users ! i)) unmarshalStats)))"
proof (cases "getUserList x unmarshalList")
  case (Inl err)
  then have "isl (getUserList x unmarshalList)" by simp
  then have "fetchFails x unmarshalList" by (simp add: isl_getUserList)
  with Inl show ?thesis by (simp add: getCephUserQuotaStats_def)
next
  case (Inr users)
  then have "\<not> isl (getUserList x unmarshalList)" by simp
  then have "\<not> fetchFails x unmarshalList" by (simp add: isl_getUserList)
  with Inr show ?thesis
    by (simp add: getCephUserQuotaStats_def isl_userQuotaLoop)
qed

lemma fetch_bucketsWorldOf:
  "getCephBucketStats (bucketExchange (bucketsWorldOf (okExchange body) bs))
     (unmarshalBuckets (bucketsWorldOf (okExchange body) bs)) = Inr bs"
  by (simp add: bucketsWorldOf_def okExchange_def getCephBucketStats_def queryCephAdminAPI_def
      StatusOK_def)

lemma fetchFails_refused: "fetchFails refusedExchange unmarshal"
  by (simp add: fetchFails_def transportFails_def refusedExchange_def)

lemma fetchFails_ok: "fetchFails (okExchange body) unmarshal = isl (unmarshal body)"
  by (simp add: fetchFails_def transportFails_def okExchange_def StatusOK_def)

lemma getUserList_usersWorldOf:
  "getUserList (userListExchange (usersWorldOf (okExchange body) users lookups))
     (unmarshalUserList (usersWorldOf (okExchange body) users lookups)) = Inr users"
  by (simp add: usersWorldOf_def okExchange_def getUserList_def queryCephAdminAPI_def StatusOK_def)

lemma usersWorldOf_simps:
  "userListExchange (usersWorldOf x users lookups) = x"
  "unmarshalUserList (usersWorldOf x users lookups) = (\<lambda>resp. Inr \<lparr>Keys = users\<rparr>)"
  "userLookups (usersWorldOf x users lookups) = lookups"
  "unmarshalUserStats (usersWorldOf x users lookups) = (\<lambda>resp. Inr exampleUserStats)"
  "usersRangeOrder (usersWorldOf x users lookups) = rev"
  "usersNow (usersWorldOf x users lookups) = 3000"
  "usersSince (usersWorldOf x users lookups) = 9"
  by (simp_all add: usersWorldOf_def)

lemma fetch_allLookupsOk:
  "getCephUserQuotaStats (okExchange ''{}'') (\<lambda>resp. Inr \<lparr>Keys = fiveUsers\<rparr>) allLookupsOk
     (\<lambda>resp. Inr exampleUserStats) =
   Inr [(''u1'', exampleUserStats), (''u2'', exampleUserStats), (''u3'', exampleUserStats),
        (''u4'', exampleUserStats), (''u5'', exampleUserStats)]"
  by (simp add: getCephUserQuotaStats_def getUserList_def queryCephAdminAPI_def okExchange_def
      StatusOK_def fiveUsers_def allLookupsOk_def)

lemma publishedOnce_users: "length (userInfo_metrics publishedOnce) = 15"
  by (simp add: publishedOnce_def users_scrape_ok usersWorldOf_simps fetch_allLookupsOk
      userMetrics_def appendUserMetrics_def)

lemma fetch_opsWorldOf:
  "getCephUsageStats (usageExchange (opsWorldOf u)) (unmarshalUsage (opsWorldOf u)) = Inr u"
  by (simp add: opsWorldOf_def okExchange_def getCephUsageStats_def queryCephAdminAPI_def StatusOK_def)

lemma fetch_failing:
  "isl (getCephUsageStats (usageExchange failingOpsWorld) (unmarshalUsage failingOpsWorld))"
  "isl (getCephBucketStats (bucketExchange failingBucketsWorld) (unmarshalBuckets failingBucketsWorld))"
  "isl (getCephUserQuotaStats (userListExchange failingUsersWorld) (unmarshalUserList failingUsersWorld)
     (userLookups failingUsersWorld) (unmarshalUserStats failingUsersWorld))"
proof -
  show "isl (getCephUsageStats (usageExchange failingOpsWorld) (unmarshalUsage failingOpsWorld))"
    by (simp add: isl_getCephUsageStats failingOpsWorld_def fetchFails_refused)
  show "isl (getCephBucketStats (bucketExchange failingBucketsWorld) (unmarshalBuckets failingBucketsWorld))"
    by (simp add: isl_getCephBucketStats failingBucketsWorld_def bucketsWorldOf_def fetchFails_refused)
  have "2 < length fiveUsers" by (simp add: fiveUsers_def)
  moreover have "fetchFails (thirdLookupFails 2 (fiveUsers ! 2)) (\<lambda>resp. Inr exampleUserStats)"
    by (simp add: thirdLookupFails_def fetchFails_refused)
  ultimately show "isl (getCephUserQuotaStats (userListExchange failingUsersWorld)
     (unmarshalUserList failingUsersWorld)
     (userLookups failingUsersWorld) (unmarshalUserStats failingUsersWorld))"
    unfolding isl_getCephUserQuotaStats failingUsersWorld_def
    using getUserList_usersWorldOf [of "''{}''" fiveUsers thirdLookupFails]
    by (auto simp: usersWorldOf_simps)
qed

lemma fetch_succeeding:
  "\<not> isl (getCephUsageStats (usageExchange (opsWorldOf exampleUsage)) (unmarshalUsage (opsWorldOf exampleUsage)))"
  "\<not> isl (getCephBucketStats (bucketExchange (bucketsWorldOf (okExchange ''[]'') [exampleBucket]))
     (unmarshalBuckets (bucketsWorldOf (okExchange ''[]'') [exampleBucket])))"
  "\<not> isl (getCephUserQuotaStats (userListExchange (usersWorldOf (okExchange ''{}'') fiveUsers allLookupsOk))
     (unmarshalUserList (usersWorldOf (okExchange ''{}'') fiveUsers allLookupsOk))
     (userLookups (usersWorldOf (okExchange ''{}'') fiveUsers allLookupsOk))
     (unmarshalUserStats (usersWorldOf (okExchange ''{}'') fiveUsers allLookupsOk)))"
  by (simp_all add: fetch_opsWorldOf fetch_bucketsWorldOf usersWorldOf_simps fetch_allLookupsOk)

lemma publishedOnce_counts:
  "scrapeCountTotal publishedOnce (''ops'', ''error'') = 0"
  "scrapeCountTotal publishedOnce (''ops'', ''success'') = 1"
  "scrapeCountTotal publishedOnce (''buckets'', ''error'') = 0"
  "scrapeCountTotal publishedOnce (''buckets'', ''success'') = 1"
  "scrapeCountTotal publishedOnce (''users'', ''error'') = 0"
  "scrapeCountTotal publishedOnce (''users'', ''success'') = 1"
  by (simp_all add: publishedOnce_def users_scrape_ok usersWorldOf_simps fetch_allLookupsOk
      buckets_scrape_ok [OF fetch_bucketsWorldOf] ops_scrape_ok [OF fetch_opsWorldOf]
      Inc_simps Set_gauge_simps NewRGWMetrics_def)

lemma opsWorldOf_simps:
  "opsNow (opsWorldOf u) = 1000" "opsSince (opsWorldOf u) = 5"
  "usageRangeOrder (opsWorldOf u) = rev"
  by (simp_all add: opsWorldOf_def)

section \<open>The usage aggregation: basic facts\<close>

lemma foldl_concat_nested: "foldl f a (concat xss) = foldl (foldl f) a xss"
  by (induction xss arbitrary: a) simp_all

lemma addCategory_addRaw:
  "addCategory owner bucketName m category =
     addRaw m (\<lparr>Owner = owner, Bucket = bucketName, Category = Name category\<rparr>, category)"
  by (simp add: addRaw_def)

lemma combineUsage_rawEntries: "combineUsage u = foldl addRaw [] (rawEntries u)"
  unfolding combineUsage_def rawEntries_def
  by (simp add: foldl_concat_nested foldl_map addEntry_def addBucket_def addCategory_addRaw
      cong: foldl_cong)

lemma addRaw_eq:
  "addRaw m (key, category) =
     AList.update key
       \<lparr>OpsTotal = OpsTotal (index m key) + Ops category,
        OpsSuccessful = OpsSuccessful (index m key) + SuccessfulOps category,
        SentBytesTotal = SentBytesTotal (index m key) + BytesSent category,
        ReceivedBytesTotal = ReceivedBytesTotal (index m key) + BytesReceived category\<rparr> m"
proof -
  have key: "\<lparr>Owner = Owner key, Bucket = Bucket key, Category = Category key\<rparr> = key"
    by (cases key) simp
  show ?thesis
    by (cases "index m key") (simp add: addRaw_def addCategory_def Let_def key)
qed

lemma index_addRaw:
  "index (addRaw m (key, category)) K =
     (if key = K
      then \<lparr>OpsTotal = OpsTotal (index m K) + Ops category,
        OpsSuccessful = OpsSuccessful (index m K) + SuccessfulOps category,
        SentBytesTotal = SentBytesTotal (index m K) + BytesSent category,
        ReceivedBytesTotal = ReceivedBytesTotal (index m K) + BytesReceived category\<rparr>
      else index m K)"
  by (simp add: addRaw_eq index_def update_conv')

lemma keys_addRaw: "fst ` set (addRaw m (key, category)) = insert key (fst ` set m)"
  by (simp add: addRaw_eq dom_update)

lemma distinct_addRaw: "distinct (map fst m) \<Longrightarrow> distinct (map fst (addRaw m (key, category)))"
  by (simp add: addRaw_eq distinct_update)

lemma foldl_addRaw_index:
  "index (foldl addRaw m rows) K =
     \<lparr>OpsTotal = OpsTotal (index m K) + wrapSum Ops K rows,
      OpsSuccessful = OpsSuccessful (index m K) + wrapSum SuccessfulOps K rows,
      SentBytesTotal = SentBytesTotal (index m K) + wrapSum BytesSent K rows,
      ReceivedBytesTotal = ReceivedBytesTotal (index m K) + wrapSum BytesReceived K rows\<rparr>"
proof (induction rows arbitrary: m)
  case Nil
  show ?case by (simp add: wrapSum_def)
next
  case (Cons r rows)
  obtain key category where r: "r = (key, category)" by (cases r)
  show ?case
    unfolding foldl_Cons Cons.IH r
    by (simp add: index_addRaw wrapSum_def add.assoc)
qed

lemma foldl_addRaw_keys:
  "fst ` set (foldl addRaw m rows) = fst ` set m \<union> fst ` set rows"
proof (induction rows arbitrary: m)
  case Nil
  show ?case by simp
next
  case (Cons r rows)
  obtain key category where r: "r = (key, category)" by (cases r)
  show ?case
    unfolding foldl_Cons Cons.IH r by (simp add: keys_addRaw)
qed

lemma foldl_addRaw_distinct:
  "distinct (map fst m) \<Longrightarrow> distinct (map fst (foldl addRaw m rows))"
proof (induction rows arbitrary: m)
  case Nil
  then show ?case by simp
next
  case (Cons r rows)
  obtain key category where r: "r = (key, category)" by (cases r)
  show ?case
    unfolding foldl_Cons r by (rule Cons.IH) (rule distinct_addRaw [OF Cons.prems])
qed

lemma word_of_int_sum_list_sint:
  "word_of_int (sum_list (map (\<lambda>x. sint (g x)) xs)) = sum_list (map g xs)"
  by (induction xs) simp_all

lemma wrapSum_exactSum: "wrapSum f K (rawEntries u) = int64_of_int (exactSum f K u)"
proof -
  have "exactSum f K u = sum_list (map (\<lambda>r. sint (f (snd r))) (filter (\<lambda>r. fst r = K) (rawEntries u)))"
    unfolding exactSum_def entriesOf_def
    by (simp add: image_mset.compositionality comp_def flip: mset_filter mset_map sum_mset_sum_list)
  then show ?thesis
    by (simp add: wrapSum_def int64_of_int_def word_of_int_sum_list_sint)
qed

lemma foldl_appendUsageMetrics:
  "foldl (appendUsageMetrics start) acc kvs =
     acc @ concat (map (appendUsageMetrics start []) kvs)"
proof (induction kvs arbitrary: acc)
  case Nil
  show ?case by simp
next
  case (Cons kv kvs)
  have "appendUsageMetrics start acc kv = acc @ appendUsageMetrics start [] kv"
    by (cases kv) (simp add: appendUsageMetrics_def)
  then show ?case
    by (simp add: Cons.IH)
qed

lemma published_append: "published d ls (xs @ ys) = published d ls xs @ published d ls ys"
  by (simp add: published_def)

lemma published_Nil: "published d ls [] = []"
  by (simp add: published_def)

lemma usage_labels_eq:
  "([Bucket k, Owner k, Category k] = [Bucket K, Owner K, Category K]) = ((k::usageKey) = K)"
  by (cases k; cases K) auto

lemma published_one_key:
  "published opsTotal [Bucket K, Owner K, Category K] (appendUsageMetrics start [] (k, v)) =
     (if k = K then [Float64_of_int64 (OpsTotal v)] else [])"
  "published opsSuccessful [Bucket K, Owner K, Category K] (appendUsageMetrics start [] (k, v)) =
     (if k = K then [Float64_of_int64 (OpsSuccessful v)] else [])"
  "published sentBytesTotal [Bucket K, Owner K, Category K] (appendUsageMetrics start [] (k, v)) =
     (if k = K then [Float64_of_int64 (SentBytesTotal v)] else [])"
  "published receivedBytesTotal [Bucket K, Owner K, Category K] (appendUsageMetrics start [] (k, v)) =
     (if k = K then [Float64_of_int64 (ReceivedBytesTotal v)] else [])"
  unfolding published_def appendUsageMetrics_def MustNewConstMetric_def
  using usage_labels_eq [of k K]
  by (simp_all add: opsTotal_def opsSuccessful_def sentBytesTotal_def receivedBytesTotal_def)

lemma published_usageMetrics:
  assumes "distinct (map fst kvs)"
  shows "published opsTotal [Bucket K, Owner K, Category K] (usageMetrics start kvs) =
           (case map_of kvs K of None \<Rightarrow> [] | Some v \<Rightarrow> [Float64_of_int64 (OpsTotal v)])"
    and "published opsSuccessful [Bucket K, Owner K, Category K] (usageMetrics start kvs) =
           (case map_of kvs K of None \<Rightarrow> [] | Some v \<Rightarrow> [Float64_of_int64 (OpsSuccessful v)])"
    and "published sentBytesTotal [Bucket K, Owner K, Category K] (usageMetrics start kvs) =
           (case map_of kvs K of None \<Rightarrow> [] | Some v \<Rightarrow> [Float64_of_int64 (SentBytesTotal v)])"
    and "published receivedBytesTotal [Bucket K, Owner K, Category K] (usageMetrics start kvs) =
           (case map_of kvs K of None \<Rightarrow> [] | Some v \<Rightarrow> [Float64_of_int64 (ReceivedBytesTotal v)])"
  using assms
proof (induction kvs)
  case Nil
  {
    case 1 show ?case by (simp add: usageMetrics_def published_Nil)
  next
    case 2 show ?case by (simp add: usageMetrics_def published_Nil)
  next
    case 3 show ?case by (simp add: usageMetrics_def published_Nil)
  next
    case 4 show ?case by (simp add: usageMetrics_def published_Nil)
  }
next
  case (Cons kv kvs)
  obtain k v where kv: "kv = (k, v)" by (cases kv)
  have step: "usageMetrics start ((k, v) # kvs) = appendUsageMetrics start [] (k, v) @ usageMetrics start kvs"
    by (simp add: usageMetrics_def kv foldl_appendUsageMetrics)
  {
    case 1
    then have d: "distinct (map fst kvs)" and nk: "k \<notin> fst ` set kvs" by (simp_all add: kv)
    from nk have "map_of kvs k = None" by (simp add: map_of_eq_None_iff)
    then show ?case
      by (simp add: step published_append published_one_key Cons.IH(1) [OF d] kv)
  next
    case 2
    then have d: "distinct (map fst kvs)" and nk: "k \<notin> fst ` set kvs" by (simp_all add: kv)
    from nk have "map_of kvs k = None" by (simp add: map_of_eq_None_iff)
    then show ?case
      by (simp add: step published_append published_one_key Cons.IH(2) [OF d] kv)
  next
    case 3
    then have d: "distinct (map fst kvs)" and nk: "k \<notin> fst ` set kvs" by (simp_all add: kv)
    from nk have "map_of kvs k = None" by (simp add: map_of_eq_None_iff)
    then show ?case
      by (simp add: step published_append published_one_key Cons.IH(3) [OF d] kv)
  next
    case 4
    then have d: "distinct (map fst kvs)" and nk: "k \<notin> fst ` set kvs" by (simp_all add: kv)
    from nk have "map_of kvs k = None" by (simp add: map_of_eq_None_iff)
    then show ?case
      by (simp add: step published_append published_one_key Cons.IH(4) [OF d] kv)
  }
qed

lemma range_order_same_map:
  assumes "mset kvs' = mset kvs" and "distinct (map fst kvs)"
  shows "distinct (map fst kvs')" and "map_of kvs' = map_of kvs"
proof -
  have "mset (map fst kvs') = mset (map fst kvs)"
    using assms(1) by (metis mset_map)
  then show d: "distinct (map fst kvs')"
    using assms(2) by (metis mset_eq_imp_distinct_iff)
  have "set kvs' = set kvs"
    using assms(1) by (rule mset_eq_setD)
  then show "map_of kvs' = map_of kvs"
    using d assms(2) by (simp add: map_of_inject_set)
qed

lemma combineUsage_distinct: "distinct (map fst (combineUsage u))"
  by (simp add: combineUsage_rawEntries foldl_addRaw_distinct)

lemma combineUsage_keys: "fst ` set (combineUsage u) = fst ` set (rawEntries u)"
  by (simp add: combineUsage_rawEntries foldl_addRaw_keys)

lemma entriesOf_empty_iff: "(entriesOf K u = {#}) = (K \<notin> fst ` set (rawEntries u))"
  by (auto simp: entriesOf_def filter_mset_eq_conv image_iff)

lemma map_of_combineUsage:
  "map_of (combineUsage u) K =
     (if entriesOf K u = {#} then None
      else Some \<lparr>OpsTotal = int64_of_int (exactSum Ops K u),
        OpsSuccessful = int64_of_int (exactSum SuccessfulOps K u),
        SentBytesTotal = int64_of_int (exactSum BytesSent K u),
        ReceivedBytesTotal = int64_of_int (exactSum BytesReceived K u)\<rparr>)"
proof (cases "K \<in> fst ` set (rawEntries u)")
  case False
  then have "map_of (combineUsage u) K = None"
    by (simp add: map_of_eq_None_iff combineUsage_keys)
  with False show ?thesis by (simp add: entriesOf_empty_iff)
next
  case True
  then have "K \<in> fst ` set (combineUsage u)" by (simp add: combineUsage_keys)
  then obtain v where v: "map_of (combineUsage u) K = Some v"
    by (metis map_of_eq_None_iff not_Some_eq)
  then have "index (combineUsage u) K = v" by (simp add: index_def)
  moreover have "index [] K = zeroUsageValue" by (simp add: index_def)
  ultimately have "v = \<lparr>OpsTotal = wrapSum Ops K (rawEntries u),
      OpsSuccessful = wrapSum SuccessfulOps K (rawEntries u),
      SentBytesTotal = wrapSum BytesSent K (rawEntries u),
      ReceivedBytesTotal = wrapSum BytesReceived K (rawEntries u)\<rparr>"
    by (simp add: combineUsage_rawEntries foldl_addRaw_index zeroUsageValue_def)
  with v True show ?thesis
    by (simp add: entriesOf_empty_iff wrapSum_exactSum)
qed

lemma ops_scrape_success:
  assumes "getCephUsageStats (usageExchange w) (unmarshalUsage w) = Inr usageStats"
  shows "ops_metrics (ops_scrape w c) =
           usageMetrics (opsNow w) (usageRangeOrder w (combineUsage usageStats))"
  using assms by (simp add: ops_scrape_def Let_def Inc_def Set_gauge_def)

lemma sint_int64_of_int:
  "- (2 ^ 63) \<le> n \<Longrightarrow> n < 2 ^ 63 \<Longrightarrow> sint (int64_of_int n) = n"
  unfolding int64_of_int_def by (simp add: sint_sbintrunc' signed_take_bit_int_eq_self)

section \<open>The bucket series: basic facts\<close>

lemma appendBucketMetrics_acc:
  "appendBucketMetrics start acc b = acc @ appendBucketMetrics start [] b"
  by (simp add: appendBucketMetrics_def Let_def split: option.splits)

lemma foldl_appendBucketMetrics:
  "foldl (appendBucketMetrics start) acc bs = acc @ concat (map (appendBucketMetrics start []) bs)"
proof (induction bs arbitrary: acc)
  case Nil
  show ?case by simp
next
  case (Cons b bs)
  show ?case
    by (simp add: Cons.IH appendBucketMetrics_acc [of start acc b])
qed

lemma bucketMetrics_concat:
  "bucketMetrics start bs = concat (map (appendBucketMetrics start []) bs)"
  by (simp add: bucketMetrics_def foldl_appendBucketMetrics)

lemma published_concat:
  "published d ls (concat xss) = concat (map (published d ls) xss)"
  by (induction xss) (simp_all add: published_Nil published_append)

lemma concat_map_if_filter:
  "concat (map (\<lambda>x. if P x then f x else []) xs) = concat (map f (filter P xs))"
  by (induction xs) simp_all

lemma concat_map_singleton: "concat (map (\<lambda>x. [f x]) xs) = map f xs"
  by (induction xs) simp_all

lemma bucket_descs_distinct:
  "distinct [bucketShardCount, bucketUsedBytes, bucketUtilizedBytes, bucketObjectCount,
     bucketQuotaEnabled, bucketQuotaMaxSizeBytes, bucketQuotaMaxObjectCount]"
  by (simp add: bucketShardCount_def bucketUsedBytes_def bucketUtilizedBytes_def
      bucketObjectCount_def bucketQuotaEnabled_def bucketQuotaMaxSizeBytes_def
      bucketQuotaMaxObjectCount_def)

lemma published_one_bucket:
  "published bucketShardCount ls (appendBucketMetrics start [] b) =
     (if bucketLabels b = ls then [Float64_of_NumShards (NumShards b)] else [])"
  "published bucketUsedBytes ls (appendBucketMetrics start [] b) =
     (if bucketLabels b = ls
      then (case Usage b ''rgw.main'' of None \<Rightarrow> [] | Some usage \<Rightarrow> [Float64_of_uint64 (Size usage)])
      else [])"
  "published bucketUtilizedBytes ls (appendBucketMetrics start [] b) =
     (if bucketLabels b = ls
      then (case Usage b ''rgw.main'' of None \<Rightarrow> []
            | Some usage \<Rightarrow> [Float64_of_uint64 (UtilizedSize usage)])
      else [])"
  "published bucketObjectCount ls (appendBucketMetrics start [] b) =
     (if bucketLabels b = ls
      then (case Usage b ''rgw.main'' of None \<Rightarrow> []
            | Some usage \<Rightarrow> [Float64_of_uint64 (NumObjects usage)])
      else [])"
  "published bucketQuotaEnabled ls (appendBucketMetrics start [] b) =
     (if bucketLabels b = ls then [if Enabled (Quota b) then Lit_1_0 else Lit_0_0] else [])"
  "published bucketQuotaMaxSizeBytes ls (appendBucketMetrics start [] b) =
     (if bucketLabels b = ls then [Float64_of_int64 (MaxSize (Quota b))] else [])"
  "published bucketQuotaMaxObjectCount ls (appendBucketMetrics start [] b) =
     (if bucketLabels b = ls then [Float64_of_int64 (MaxObjects (Quota b))] else [])"
  using bucket_descs_distinct
  by (auto simp: published_def appendBucketMetrics_def MustNewConstMetric_def bucketLabels_def
      Let_def split: option.splits)

lemma published_bucketMetrics:
  "published bucketShardCount ls (bucketMetrics start bs) =
     map (\<lambda>b. Float64_of_NumShards (NumShards b)) (filter (\<lambda>b. bucketLabels b = ls) bs)"
  "published bucketUsedBytes ls (bucketMetrics start bs) =
     concat (map (\<lambda>b. case Usage b ''rgw.main'' of None \<Rightarrow> []
                      | Some usage \<Rightarrow> [Float64_of_uint64 (Size usage)])
       (filter (\<lambda>b. bucketLabels b = ls) bs))"
  "published bucketUtilizedBytes ls (bucketMetrics start bs) =
     concat (map (\<lambda>b. case Usage b ''rgw.main'' of None \<Rightarrow> []
                      | Some usage \<Rightarrow> [Float64_of_uint64 (UtilizedSize usage)])
       (filter (\<lambda>b. bucketLabels b = ls) bs))"
  "published bucketObjectCount ls (bucketMetrics start bs) =
     concat (map (\<lambda>b. case Usage b ''rgw.main'' of None \<Rightarrow> []
                      | Some usage \<Rightarrow> [Float64_of_uint64 (NumObjects usage)])
       (filter (\<lambda>b. bucketLabels b = ls) bs))"
  "published bucketQuotaEnabled ls (bucketMetrics start bs) =
     map (\<lambda>b. if Enabled (Quota b) then Lit_1_0 else Lit_0_0) (filter (\<lambda>b. bucketLabels b = ls) bs)"
  "published bucketQuotaMaxSizeBytes ls (bucketMetrics start bs) =
     map (\<lambda>b. Float64_of_int64 (MaxSize (Quota b))) (filter (\<lambda>b. bucketLabels b = ls) bs)"
  "published bucketQuotaMaxObjectCount ls (bucketMetrics start bs) =
     map (\<lambda>b. Float64_of_int64 (MaxObjects (Quota b))) (filter (\<lambda>b. bucketLabels b = ls) bs)"
  by (simp_all add: bucketMetrics_concat published_concat comp_def published_one_bucket
      concat_map_if_filter concat_map_singleton)

lemma quota_series_emitted:
  assumes "b \<in> set bs"
  shows "MustNewConstMetric bucketQuotaEnabled GaugeValue
           (if Enabled (Quota b) then Lit_1_0 else Lit_0_0) (bucketLabels b) start
           \<in> set (bucketMetrics start bs)"
    and "MustNewConstMetric bucketQuotaMaxSizeBytes GaugeValue
           (Float64_of_int64 (MaxSize (Quota b))) (bucketLabels b) start
           \<in> set (bucketMetrics start bs)"
    and "MustNewConstMetric bucketQuotaMaxObjectCount GaugeValue
           (Float64_of_int64 (MaxObjects (Quota b))) (bucketLabels b) start
           \<in> set (bucketMetrics start bs)"
proof -
  have sub: "set (appendBucketMetrics start [] b) \<subseteq> set (bucketMetrics start bs)"
    using assms by (auto simp: bucketMetrics_concat)
  have "MustNewConstMetric bucketQuotaEnabled GaugeValue
           (if Enabled (Quota b) then Lit_1_0 else Lit_0_0) (bucketLabels b) start
           \<in> set (appendBucketMetrics start [] b)"
    by (simp add: appendBucketMetrics_def Let_def bucketLabels_def split: option.splits)
  with sub show "MustNewConstMetric bucketQuotaEnabled GaugeValue
           (if Enabled (Quota b) then Lit_1_0 else Lit_0_0) (bucketLabels b) start
           \<in> set (bucketMetrics start bs)" by blast
  have "MustNewConstMetric bucketQuotaMaxSizeBytes GaugeValue
           (Float64_of_int64 (MaxSize (Quota b))) (bucketLabels b) start
           \<in> set (appendBucketMetrics start [] b)"
    by (simp add: appendBucketMetrics_def Let_def bucketLabels_def split: option.splits)
  with sub show "MustNewConstMetric bucketQuotaMaxSizeBytes GaugeValue
           (Float64_of_int64 (MaxSize (Quota b))) (bucketLabels b) start
           \<in> set (bucketMetrics start bs)" by blast
  have "MustNewConstMetric bucketQuotaMaxObjectCount GaugeValue
           (Float64_of_int64 (MaxObjects (Quota b))) (bucketLabels b) start
           \<in> set (appendBucketMetrics start [] b)"
    by (simp add: appendBucketMetrics_def Let_def bucketLabels_def split: option.splits)
  with sub show "MustNewConstMetric bucketQuotaMaxObjectCount GaugeValue
           (Float64_of_int64 (MaxObjects (Quota b))) (bucketLabels b) start
           \<in> set (bucketMetrics start bs)" by blast
qed

lemma buckets_scrape_snapshot:
  "getCephBucketStats (bucketExchange w) (unmarshalBuckets w) = Inr bucketStats \<Longrightarrow>
     bucketInfo_metrics (buckets_scrape w c) = bucketMetrics (bucketsNow w) bucketStats"
  by (simp add: buckets_scrape_ok)

lemma publishedOnce_snapshots:
  "length (ops_metrics publishedOnce) = 4"
  "length (bucketInfo_metrics publishedOnce) = 7"
proof -
  have ops: "ops_metrics (ops_scrape (opsWorldOf exampleUsage) NewRGWMetrics) =
      usageMetrics 1000 (rev (combineUsage exampleUsage))"
    by (simp add: ops_scrape_ok [OF fetch_opsWorldOf] opsWorldOf_simps)
  have "length (usageMetrics 1000 (rev (combineUsage exampleUsage))) = 4"
    by (simp add: combineUsage_def addEntry_def addBucket_def addCategory_def Let_def index_def
        zeroUsageValue_def exampleUsage_def usageMetrics_def appendUsageMetrics_def)
  with ops show "length (ops_metrics publishedOnce) = 4"
    by (simp add: publishedOnce_def users_scrape_ok usersWorldOf_simps fetch_allLookupsOk
      buckets_scrape_ok [OF fetch_bucketsWorldOf] Inc_simps Set_gauge_simps)
  show "length (bucketInfo_metrics publishedOnce) = 7"
    by (simp add: publishedOnce_def users_scrape_ok usersWorldOf_simps fetch_allLookupsOk
      buckets_scrape_ok [OF fetch_bucketsWorldOf] Inc_simps Set_gauge_simps
      bucketMetrics_def appendBucketMetrics_def exampleBucket_def)
qed

lemma combineUsage_no_rows: "rawEntries usageStats = [] \<Longrightarrow> combineUsage usageStats = []"
  by (simp add: combineUsage_rawEntries)

section \<open>The scheduling loop: basic facts\<close>

lemma scrapes_le: "scrapes its \<le> length its"
  by (induction its) (auto split: selected.splits)

lemma scrapeLoop_state:
  "snd (scrapeLoop scrape its c) =
     foldl (\<lambda>c it. scrape (world it) c) c (take (scrapes its) its)"
proof (induction its arbitrary: c)
  case Nil
  show ?case by simp
next
  case (Cons it its)
  show ?case
  proof (cases "ctxErr it")
    case True
    then show ?thesis by simp
  next
    case False
    show ?thesis
    proof (cases "selected it")
      case Tick
      with False Cons.IH [of "scrape (world it) c"] show ?thesis
        by (simp add: Let_def case_prod_beta)
    next
      case Done
      with False show ?thesis by (simp add: Let_def)
    qed
  qed
qed

lemma accounted_ops_scrape: "accounted ''ops'' (ops_scrape w c) = Suc (accounted ''ops'' c)"
proof (cases "getCephUsageStats (usageExchange w) (unmarshalUsage w)")
  case (Inl err)
  then have "isl (getCephUsageStats (usageExchange w) (unmarshalUsage w))" by simp
  then show ?thesis by (simp add: accounted_def ops_scrape_error Inc_simps Set_gauge_simps)
next
  case (Inr usageStats)
  then show ?thesis by (simp add: accounted_def ops_scrape_ok Inc_simps Set_gauge_simps)
qed

lemma accounted_buckets_scrape:
  "accounted ''buckets'' (buckets_scrape w c) = Suc (accounted ''buckets'' c)"
proof (cases "getCephBucketStats (bucketExchange w) (unmarshalBuckets w)")
  case (Inl err)
  then have "isl (getCephBucketStats (bucketExchange w) (unmarshalBuckets w))" by simp
  then show ?thesis by (simp add: accounted_def buckets_scrape_error Inc_simps Set_gauge_simps)
next
  case (Inr bucketStats)
  then show ?thesis by (simp add: accounted_def buckets_scrape_ok Inc_simps Set_gauge_simps)
qed

lemma accounted_users_scrape:
  "accounted ''users'' (users_scrape w c) = Suc (accounted ''users'' c)"
proof (cases "getCephUserQuotaStats (userListExchange w) (unmarshalUserList w) (userLookups w)
        (unmarshalUserStats w)")
  case (Inl err)
  then have "isl (getCephUserQuotaStats (userListExchange w) (unmarshalUserList w) (userLookups w)
        (unmarshalUserStats w))" by simp
  then show ?thesis by (simp add: accounted_def users_scrape_error Inc_simps Set_gauge_simps)
next
  case (Inr userQuotaInfo)
  then show ?thesis by (simp add: accounted_def users_scrape_ok Inc_simps Set_gauge_simps)
qed

lemma accounted_foldl:
  assumes "\<And>w c. accounted ty (scrape w c) = Suc (accounted ty c)"
  shows "accounted ty (foldl (\<lambda>c it. scrape (world it) c) c its) = accounted ty c + length its"
  by (induction its arbitrary: c) (simp_all add: assms)

lemma scrape_counts_simps:
  "isl (getCephUsageStats (usageExchange w) (unmarshalUsage w)) \<Longrightarrow>
     scrapeCountTotal (ops_scrape w c) (''ops'', ''error'') = scrapeCountTotal c (''ops'', ''error'') + 1 \<and>
     scrapeCountTotal (ops_scrape w c) (''ops'', ''success'') = scrapeCountTotal c (''ops'', ''success'')"
  "\<not> isl (getCephUsageStats (usageExchange w) (unmarshalUsage w)) \<Longrightarrow>
     scrapeCountTotal (ops_scrape w c) (''ops'', ''error'') = scrapeCountTotal c (''ops'', ''error'') \<and>
     scrapeCountTotal (ops_scrape w c) (''ops'', ''success'') = scrapeCountTotal c (''ops'', ''success'') + 1"
proof -
  show "isl (getCephUsageStats (usageExchange w) (unmarshalUsage w)) \<Longrightarrow>
     scrapeCountTotal (ops_scrape w c) (''ops'', ''error'') = scrapeCountTotal c (''ops'', ''error'') + 1 \<and>
     scrapeCountTotal (ops_scrape w c) (''ops'', ''success'') = scrapeCountTotal c (''ops'', ''success'')"
    by (simp add: ops_scrape_error Inc_simps Set_gauge_simps)
  show "\<not> isl (getCephUsageStats (usageExchange w) (unmarshalUsage w)) \<Longrightarrow>
     scrapeCountTotal (ops_scrape w c) (''ops'', ''error'') = scrapeCountTotal c (''ops'', ''error'') \<and>
     scrapeCountTotal (ops_scrape w c) (''ops'', ''success'') = scrapeCountTotal c (''ops'', ''success'') + 1"
    by (cases "getCephUsageStats (usageExchange w) (unmarshalUsage w)")
      (simp_all add: ops_scrape_ok Inc_simps Set_gauge_simps)
qed

lemma failOkFail_counts:
  "scrapeCountTotal (snd (ops_FetchMetrics oneMinute failOkFail NewRGWMetrics)) (''ops'', ''error'') = 2"
  "scrapeCountTotal (snd (ops_FetchMetrics oneMinute failOkFail NewRGWMetrics)) (''ops'', ''success'') = 1"
  by (simp_all add: ops_FetchMetrics_def oneMinute_def failOkFail_def tickIteration_def Let_def case_prod_beta
      scrape_counts_simps(1) [OF fetch_failing(1)] scrape_counts_simps(2) [OF fetch_succeeding(1)]
      NewRGWMetrics_def)

section \<open>The mutex: basic facts\<close>

lemma lockDiscipline_exec:
  "lockDiscipline s \<Longrightarrow> exec a s = Some s' \<Longrightarrow> lockDiscipline s'"
  by (cases a)
    (auto simp: lockDiscipline_def split: if_splits publisher_pc.splits reader_pc.splits list.splits)

lemma lockDiscipline_run:
  "lockDiscipline s \<Longrightarrow> run as s = Some s' \<Longrightarrow> lockDiscipline s'"
proof (induction as arbitrary: s)
  case Nil
  then show ?case by simp
next
  case (Cons a as)
  then obtain s1 where s1: "exec a s = Some s1" "run as s1 = Some s'"
    by (auto split: option.splits)
  from Cons.prems(1) s1(1) have "lockDiscipline s1" by (rule lockDiscipline_exec)
  then show ?case using s1(2) by (rule Cons.IH)
qed

lemma lockDiscipline_new: "lockDiscipline newCollector"
  by (simp add: lockDiscipline_def newCollector_def)

section \<open>The usage aggregate (C1)\<close>

text \<open>
  C1, as the code has it. On a cycle whose fetch answers the payload \<open>usageStats\<close>, and
  whatever order \<open>range\<close> visits the combined map in, the snapshot publishes for a key
  \<open>K\<close> with at least one raw entry exactly one value for each of the four series
  (ops, successful ops, bytes sent, bytes received), and nothing for a key with no raw
  entry. The value is \<open>float64\<close> of the sum, in \<open>int64\<close> arithmetic, of that counter over
  all raw entries with key \<open>K\<close>: the exact sum over the multiset of those entries (each
  counted once, in no order) reduced modulo \<open>2 ^ 64\<close>, which is the exact sum itself
  whenever that lies in the range of \<open>int64\<close>.
\<close>

theorem usage_aggregate_wrapped_sum:
  assumes fetch: "getCephUsageStats (usageExchange w) (unmarshalUsage w) = Inr usageStats"
    and order: "mset (usageRangeOrder w (combineUsage usageStats)) = mset (combineUsage usageStats)"
  shows "published opsTotal [Bucket K, Owner K, Category K] (ops_metrics (ops_scrape w c)) =
           (if entriesOf K usageStats = {#} then []
            else [Float64_of_int64 (int64_of_int (exactSum Ops K usageStats))]) \<and>
         published opsSuccessful [Bucket K, Owner K, Category K] (ops_metrics (ops_scrape w c)) =
           (if entriesOf K usageStats = {#} then []
            else [Float64_of_int64 (int64_of_int (exactSum SuccessfulOps K usageStats))]) \<and>
         published sentBytesTotal [Bucket K, Owner K, Category K] (ops_metrics (ops_scrape w c)) =
           (if entriesOf K usageStats = {#} then []
            else [Float64_of_int64 (int64_of_int (exactSum BytesSent K usageStats))]) \<and>
         published receivedBytesTotal [Bucket K, Owner K, Category K] (ops_metrics (ops_scrape w c)) =
           (if entriesOf K usageStats = {#} then []
            else [Float64_of_int64 (int64_of_int (exactSum BytesReceived K usageStats))]) \<and>
         (\<forall>f. - (2 ^ 63) \<le> exactSum f K usageStats \<and> exactSum f K usageStats < 2 ^ 63 \<longrightarrow>
              sint (int64_of_int (exactSum f K usageStats)) = exactSum f K usageStats)"
proof -
  let ?visited = "usageRangeOrder w (combineUsage usageStats)"
  have d: "distinct (map fst ?visited)" and m: "map_of ?visited = map_of (combineUsage usageStats)"
    using range_order_same_map [OF order combineUsage_distinct] by simp_all
  have snapshot: "ops_metrics (ops_scrape w c) = usageMetrics (opsNow w) ?visited"
    by (rule ops_scrape_success [OF fetch])
  show ?thesis
    unfolding snapshot
    by (simp add: published_usageMetrics [OF d] m map_of_combineUsage sint_int64_of_int)
qed

text \<open>
  The payload of the specification's example, in a cycle that visits the map in reverse
  order: ops 7, successful ops 6, bytes sent 150 (and bytes received 0).
\<close>

theorem usage_aggregate_wrapped_sum_witness:
  "getCephUsageStats (usageExchange (opsWorldOf exampleUsage)) (unmarshalUsage (opsWorldOf exampleUsage))
     = Inr exampleUsage \<and>
   mset (usageRangeOrder (opsWorldOf exampleUsage) (combineUsage exampleUsage))
     = mset (combineUsage exampleUsage) \<and>
   published opsTotal [''b1'', ''alice'', ''put_obj'']
     (ops_metrics (ops_scrape (opsWorldOf exampleUsage) NewRGWMetrics)) = [Float64_of_int64 7] \<and>
   published opsSuccessful [''b1'', ''alice'', ''put_obj'']
     (ops_metrics (ops_scrape (opsWorldOf exampleUsage) NewRGWMetrics)) = [Float64_of_int64 6] \<and>
   published sentBytesTotal [''b1'', ''alice'', ''put_obj'']
     (ops_metrics (ops_scrape (opsWorldOf exampleUsage) NewRGWMetrics)) = [Float64_of_int64 150] \<and>
   published receivedBytesTotal [''b1'', ''alice'', ''put_obj'']
     (ops_metrics (ops_scrape (opsWorldOf exampleUsage) NewRGWMetrics)) = [Float64_of_int64 0]"
proof -
  have fetch: "getCephUsageStats (usageExchange (opsWorldOf exampleUsage))
      (unmarshalUsage (opsWorldOf exampleUsage)) = Inr exampleUsage"
    by (rule fetch_opsWorldOf)
  have order: "mset (usageRangeOrder (opsWorldOf exampleUsage) (combineUsage exampleUsage))
      = mset (combineUsage exampleUsage)"
    by (simp add: opsWorldOf_def)
  have rows: "entriesOf aliceKey exampleUsage =
      {#\<lparr>Name = ''put_obj'', BytesSent = 100, BytesReceived = 0, Ops = 3, SuccessfulOps = 3\<rparr>,
        \<lparr>Name = ''put_obj'', BytesSent = 50, BytesReceived = 0, Ops = 4, SuccessfulOps = 3\<rparr>#}"
    by (simp add: entriesOf_def rawEntries_def exampleUsage_def aliceKey_def)
  have labels: "[Bucket aliceKey, Owner aliceKey, Category aliceKey] = [''b1'', ''alice'', ''put_obj'']"
    by (simp add: aliceKey_def)
  show ?thesis
    using usage_aggregate_wrapped_sum [OF fetch order, of aliceKey NewRGWMetrics] fetch order
    unfolding labels
    by (simp add: rows exactSum_def int64_of_int_def)
qed

text \<open>
  C1 as the specification words it fails twice. Its example has successful ops 3 and 3 and
  asks for 7: the code publishes their sum, 6. And the sum is exact only within
  \<open>int64\<close>: two rows with \<open>2 ^ 62\<close> ops each publish \<open>float64(-2 ^ 63)\<close>, while the
  exact sum is \<open>2 ^ 63\<close>.
\<close>

theorem usage_aggregate_counterexample:
  "published opsSuccessful [''b1'', ''alice'', ''put_obj'']
     (ops_metrics (ops_scrape (opsWorldOf exampleUsage) NewRGWMetrics)) = [Float64_of_int64 6] \<and>
   published opsSuccessful [''b1'', ''alice'', ''put_obj'']
     (ops_metrics (ops_scrape (opsWorldOf exampleUsage) NewRGWMetrics)) \<noteq> [Float64_of_int64 7] \<and>
   published opsTotal [''b1'', ''alice'', ''put_obj'']
     (ops_metrics (ops_scrape (opsWorldOf overflowUsage) NewRGWMetrics))
     = [Float64_of_int64 (- 9223372036854775808)] \<and>
   sint (- 9223372036854775808 :: int64) = - 9223372036854775808 \<and>
   exactSum Ops aliceKey overflowUsage = 9223372036854775808"
  by (simp add: ops_scrape_def opsWorldOf_def okExchange_def getCephUsageStats_def
      queryCephAdminAPI_def StatusOK_def Let_def Inc_def Set_gauge_def NewRGWMetrics_def
      combineUsage_def addEntry_def addBucket_def addCategory_def index_def zeroUsageValue_def
      exampleUsage_def overflowUsage_def usageMetrics_def appendUsageMetrics_def published_def
      MustNewConstMetric_def opsTotal_def opsSuccessful_def sentBytesTotal_def receivedBytesTotal_def
      exactSum_def entriesOf_def rawEntries_def aliceKey_def)

section \<open>Failed and successful cycles (C2)\<close>

text \<open>
  C2. For each of the three collectors: a cycle whose fetch returns an error leaves the
  collector's snapshot, and so what \<open>Collect\<close> sends, as it was, adds one to the
  collector's error counter and leaves its success counter; a cycle whose fetch succeeds
  adds one to the success counter and leaves the error counter.
\<close>

theorem failed_cycle_keeps_snapshot:
  "(isl (getCephUsageStats (usageExchange ow) (unmarshalUsage ow)) \<longrightarrow>
      ops_metrics (ops_scrape ow c) = ops_metrics c \<and>
      ops_Collect (ops_scrape ow c) = ops_Collect c \<and>
      scrapeCountTotal (ops_scrape ow c) (''ops'', ''error'') = scrapeCountTotal c (''ops'', ''error'') + 1 \<and>
      scrapeCountTotal (ops_scrape ow c) (''ops'', ''success'') = scrapeCountTotal c (''ops'', ''success'')) \<and>
   (\<not> isl (getCephUsageStats (usageExchange ow) (unmarshalUsage ow)) \<longrightarrow>
      scrapeCountTotal (ops_scrape ow c) (''ops'', ''success'') = scrapeCountTotal c (''ops'', ''success'') + 1 \<and>
      scrapeCountTotal (ops_scrape ow c) (''ops'', ''error'') = scrapeCountTotal c (''ops'', ''error'')) \<and>
   (isl (getCephBucketStats (bucketExchange bw) (unmarshalBuckets bw)) \<longrightarrow>
      bucketInfo_metrics (buckets_scrape bw c) = bucketInfo_metrics c \<and>
      buckets_Collect (buckets_scrape bw c) = buckets_Collect c \<and>
      scrapeCountTotal (buckets_scrape bw c) (''buckets'', ''error'') = scrapeCountTotal c (''buckets'', ''error'') + 1 \<and>
      scrapeCountTotal (buckets_scrape bw c) (''buckets'', ''success'') = scrapeCountTotal c (''buckets'', ''success'')) \<and>
   (\<not> isl (getCephBucketStats (bucketExchange bw) (unmarshalBuckets bw)) \<longrightarrow>
      scrapeCountTotal (buckets_scrape bw c) (''buckets'', ''success'') = scrapeCountTotal c (''buckets'', ''success'') + 1 \<and>
      scrapeCountTotal (buckets_scrape bw c) (''buckets'', ''error'') = scrapeCountTotal c (''buckets'', ''error'')) \<and>
   (isl (getCephUserQuotaStats (userListExchange uw) (unmarshalUserList uw) (userLookups uw)
           (unmarshalUserStats uw)) \<longrightarrow>
      userInfo_metrics (users_scrape uw c) = userInfo_metrics c \<and>
      users_Collect (users_scrape uw c) = users_Collect c \<and>
      scrapeCountTotal (users_scrape uw c) (''users'', ''error'') = scrapeCountTotal c (''users'', ''error'') + 1 \<and>
      scrapeCountTotal (users_scrape uw c) (''users'', ''success'') = scrapeCountTotal c (''users'', ''success'')) \<and>
   (\<not> isl (getCephUserQuotaStats (userListExchange uw) (unmarshalUserList uw) (userLookups uw)
           (unmarshalUserStats uw)) \<longrightarrow>
      scrapeCountTotal (users_scrape uw c) (''users'', ''success'') = scrapeCountTotal c (''users'', ''success'') + 1 \<and>
      scrapeCountTotal (users_scrape uw c) (''users'', ''error'') = scrapeCountTotal c (''users'', ''error''))"
proof -
  have ops_err: "ops_metrics (ops_scrape ow c) = ops_metrics c \<and>
      ops_Collect (ops_scrape ow c) = ops_Collect c \<and>
      scrapeCountTotal (ops_scrape ow c) (''ops'', ''error'') = scrapeCountTotal c (''ops'', ''error'') + 1 \<and>
      scrapeCountTotal (ops_scrape ow c) (''ops'', ''success'') = scrapeCountTotal c (''ops'', ''success'')"
    if "isl (getCephUsageStats (usageExchange ow) (unmarshalUsage ow))"
    by (simp add: ops_scrape_error [OF that] Collect_eq Inc_simps Set_gauge_simps)
  have ops_ok: "scrapeCountTotal (ops_scrape ow c) (''ops'', ''success'') = scrapeCountTotal c (''ops'', ''success'') + 1 \<and>
      scrapeCountTotal (ops_scrape ow c) (''ops'', ''error'') = scrapeCountTotal c (''ops'', ''error'')"
    if "\<not> isl (getCephUsageStats (usageExchange ow) (unmarshalUsage ow))"
  proof -
    from that obtain u where "getCephUsageStats (usageExchange ow) (unmarshalUsage ow) = Inr u"
      by (cases "getCephUsageStats (usageExchange ow) (unmarshalUsage ow)") simp_all
    then show ?thesis
      by (simp add: ops_scrape_ok Inc_simps Set_gauge_simps)
  qed
  have b_err: "bucketInfo_metrics (buckets_scrape bw c) = bucketInfo_metrics c \<and>
      buckets_Collect (buckets_scrape bw c) = buckets_Collect c \<and>
      scrapeCountTotal (buckets_scrape bw c) (''buckets'', ''error'') = scrapeCountTotal c (''buckets'', ''error'') + 1 \<and>
      scrapeCountTotal (buckets_scrape bw c) (''buckets'', ''success'') = scrapeCountTotal c (''buckets'', ''success'')"
    if "isl (getCephBucketStats (bucketExchange bw) (unmarshalBuckets bw))"
    by (simp add: buckets_scrape_error [OF that] Collect_eq Inc_simps Set_gauge_simps)
  have b_ok: "scrapeCountTotal (buckets_scrape bw c) (''buckets'', ''success'') = scrapeCountTotal c (''buckets'', ''success'') + 1 \<and>
      scrapeCountTotal (buckets_scrape bw c) (''buckets'', ''error'') = scrapeCountTotal c (''buckets'', ''error'')"
    if "\<not> isl (getCephBucketStats (bucketExchange bw) (unmarshalBuckets bw))"
  proof -
    from that obtain u where "getCephBucketStats (bucketExchange bw) (unmarshalBuckets bw) = Inr u"
      by (cases "getCephBucketStats (bucketExchange bw) (unmarshalBuckets bw)") simp_all
    then show ?thesis
      by (simp add: buckets_scrape_ok Inc_simps Set_gauge_simps)
  qed
  have u_err: "userInfo_metrics (users_scrape uw c) = userInfo_metrics c \<and>
      users_Collect (users_scrape uw c) = users_Collect c \<and>
      scrapeCountTotal (users_scrape uw c) (''users'', ''error'') = scrapeCountTotal c (''users'', ''error'') + 1 \<and>
      scrapeCountTotal (users_scrape uw c) (''users'', ''success'') = scrapeCountTotal c (''users'', ''success'')"
    if "isl (getCephUserQuotaStats (userListExchange uw) (unmarshalUserList uw) (userLookups uw)
           (unmarshalUserStats uw))"
    by (simp add: users_scrape_error [OF that] Collect_eq Inc_simps Set_gauge_simps)
  have u_ok: "scrapeCountTotal (users_scrape uw c) (''users'', ''success'') = scrapeCountTotal c (''users'', ''success'') + 1 \<and>
      scrapeCountTotal (users_scrape uw c) (''users'', ''error'') = scrapeCountTotal c (''users'', ''error'')"
    if "\<not> isl (getCephUserQuotaStats (userListExchange uw) (unmarshalUserList uw) (userLookups uw)
           (unmarshalUserStats uw))"
  proof -
    from that obtain u where "getCephUserQuotaStats (userListExchange uw) (unmarshalUserList uw)
        (userLookups uw) (unmarshalUserStats uw) = Inr u"
      by (cases "getCephUserQuotaStats (userListExchange uw) (unmarshalUserList uw)
        (userLookups uw) (unmarshalUserStats uw)") simp_all
    then show ?thesis
      by (simp add: users_scrape_ok Inc_simps Set_gauge_simps)
  qed
  from ops_err ops_ok b_err b_ok u_err u_ok show ?thesis by blast
qed

text \<open>
  After one successful cycle of each collector: a failing cycle of each (a refused
  connection; for the users, a refused third lookup) keeps the snapshot and counts one
  error; a further successful cycle counts a second success and no error.
\<close>

theorem failed_cycle_keeps_snapshot_witness:
  "isl (getCephUsageStats (usageExchange failingOpsWorld) (unmarshalUsage failingOpsWorld)) \<and>
   ops_metrics (ops_scrape failingOpsWorld publishedOnce) = ops_metrics publishedOnce \<and>
   scrapeCountTotal (ops_scrape failingOpsWorld publishedOnce) (''ops'', ''error'') = 1 \<and>
   scrapeCountTotal (ops_scrape failingOpsWorld publishedOnce) (''ops'', ''success'') = 1 \<and>
   isl (getCephBucketStats (bucketExchange failingBucketsWorld) (unmarshalBuckets failingBucketsWorld)) \<and>
   bucketInfo_metrics (buckets_scrape failingBucketsWorld publishedOnce) = bucketInfo_metrics publishedOnce \<and>
   scrapeCountTotal (buckets_scrape failingBucketsWorld publishedOnce) (''buckets'', ''error'') = 1 \<and>
   scrapeCountTotal (buckets_scrape failingBucketsWorld publishedOnce) (''buckets'', ''success'') = 1 \<and>
   isl (getCephUserQuotaStats (userListExchange failingUsersWorld) (unmarshalUserList failingUsersWorld)
     (userLookups failingUsersWorld) (unmarshalUserStats failingUsersWorld)) \<and>
   userInfo_metrics (users_scrape failingUsersWorld publishedOnce) = userInfo_metrics publishedOnce \<and>
   scrapeCountTotal (users_scrape failingUsersWorld publishedOnce) (''users'', ''error'') = 1 \<and>
   scrapeCountTotal (users_scrape failingUsersWorld publishedOnce) (''users'', ''success'') = 1 \<and>
   \<not> isl (getCephUsageStats (usageExchange (opsWorldOf exampleUsage)) (unmarshalUsage (opsWorldOf exampleUsage))) \<and>
   scrapeCountTotal (ops_scrape (opsWorldOf exampleUsage) publishedOnce) (''ops'', ''success'') = 2 \<and>
   scrapeCountTotal (ops_scrape (opsWorldOf exampleUsage) publishedOnce) (''ops'', ''error'') = 0 \<and>
   \<not> isl (getCephBucketStats (bucketExchange (bucketsWorldOf (okExchange ''[]'') [exampleBucket]))
     (unmarshalBuckets (bucketsWorldOf (okExchange ''[]'') [exampleBucket]))) \<and>
   scrapeCountTotal (buckets_scrape (bucketsWorldOf (okExchange ''[]'') [exampleBucket]) publishedOnce)
     (''buckets'', ''success'') = 2 \<and>
   scrapeCountTotal (buckets_scrape (bucketsWorldOf (okExchange ''[]'') [exampleBucket]) publishedOnce)
     (''buckets'', ''error'') = 0 \<and>
   \<not> isl (getCephUserQuotaStats (userListExchange (usersWorldOf (okExchange ''{}'') fiveUsers allLookupsOk))
     (unmarshalUserList (usersWorldOf (okExchange ''{}'') fiveUsers allLookupsOk))
     (userLookups (usersWorldOf (okExchange ''{}'') fiveUsers allLookupsOk))
     (unmarshalUserStats (usersWorldOf (okExchange ''{}'') fiveUsers allLookupsOk))) \<and>
   scrapeCountTotal (users_scrape (usersWorldOf (okExchange ''{}'') fiveUsers allLookupsOk) publishedOnce)
     (''users'', ''success'') = 2 \<and>
   scrapeCountTotal (users_scrape (usersWorldOf (okExchange ''{}'') fiveUsers allLookupsOk) publishedOnce)
     (''users'', ''error'') = 0"
  using failed_cycle_keeps_snapshot [of failingOpsWorld publishedOnce failingBucketsWorld failingUsersWorld]
    failed_cycle_keeps_snapshot [of "opsWorldOf exampleUsage" publishedOnce
      "bucketsWorldOf (okExchange ''[]'') [exampleBucket]"
      "usersWorldOf (okExchange ''{}'') fiveUsers allLookupsOk"]
    fetch_failing fetch_succeeding
  by (simp add: publishedOnce_counts)

section \<open>A failed per-user lookup (C3)\<close>

text \<open>
  C3. When the list of users is fetched and the quota lookup of the user at any index
  \<open>i\<close> of it fails (in transport, by its status, or in decoding),
  \<open>getCephUserQuotaStats\<close> returns an error, which carries no map, and the cycle
  publishes nothing: the snapshot of the user collector and what \<open>Collect\<close> sends stay
  as they were, the error counter goes up by one and the success counter stays.
\<close>

theorem failed_user_lookup_publishes_nothing:
  assumes users: "getUserList (userListExchange w) (unmarshalUserList w) = Inr users"
    and i: "i < length users"
    and fails: "fetchFails (userLookups w i (users ! i)) (unmarshalUserStats w)"
  shows "isl (getCephUserQuotaStats (userListExchange w) (unmarshalUserList w) (userLookups w)
            (unmarshalUserStats w)) \<and>
         userInfo_metrics (users_scrape w c) = userInfo_metrics c \<and>
         users_Collect (users_scrape w c) = users_Collect c \<and>
         scrapeCountTotal (users_scrape w c) (''users'', ''error'') =
           scrapeCountTotal c (''users'', ''error'') + 1 \<and>
         scrapeCountTotal (users_scrape w c) (''users'', ''success'') =
           scrapeCountTotal c (''users'', ''success'')"
proof -
  have err: "isl (getCephUserQuotaStats (userListExchange w) (unmarshalUserList w) (userLookups w)
      (unmarshalUserStats w))"
    unfolding isl_getCephUserQuotaStats using users i fails by blast
  show ?thesis
    by (simp add: err users_scrape_error [OF err] Collect_eq Inc_simps Set_gauge_simps)
qed

text \<open>
  Five users, the third lookup refused: the fetch fails and the fifteen series published
  by an earlier cycle stay.
\<close>

theorem failed_user_lookup_publishes_nothing_witness:
  "getUserList (userListExchange (usersWorldOf (okExchange ''{}'') fiveUsers thirdLookupFails))
     (unmarshalUserList (usersWorldOf (okExchange ''{}'') fiveUsers thirdLookupFails)) = Inr fiveUsers \<and>
   2 < length fiveUsers \<and> length fiveUsers = 5 \<and>
   fetchFails (userLookups (usersWorldOf (okExchange ''{}'') fiveUsers thirdLookupFails) 2 (fiveUsers ! 2))
     (unmarshalUserStats (usersWorldOf (okExchange ''{}'') fiveUsers thirdLookupFails)) \<and>
   isl (getCephUserQuotaStats (okExchange ''{}'') (\<lambda>resp. Inr \<lparr>Keys = fiveUsers\<rparr>) thirdLookupFails
     (\<lambda>resp. Inr exampleUserStats)) \<and>
   userInfo_metrics (users_scrape (usersWorldOf (okExchange ''{}'') fiveUsers thirdLookupFails) publishedOnce)
     = userInfo_metrics publishedOnce \<and>
   length (userInfo_metrics publishedOnce) = 15"
proof -
  let ?w = "usersWorldOf (okExchange ''{}'') fiveUsers thirdLookupFails"
  have users: "getUserList (userListExchange ?w) (unmarshalUserList ?w) = Inr fiveUsers"
    by (rule getUserList_usersWorldOf)
  have i: "2 < length fiveUsers" and n: "length fiveUsers = 5"
    by (simp_all add: fiveUsers_def)
  have fails: "fetchFails (userLookups ?w 2 (fiveUsers ! 2)) (unmarshalUserStats ?w)"
    by (simp add: usersWorldOf_simps thirdLookupFails_def fetchFails_refused)
  show ?thesis
    using failed_user_lookup_publishes_nothing [OF users i fails, of publishedOnce] users i n fails
    by (simp add: usersWorldOf_simps publishedOnce_users)
qed

section \<open>Buckets with and without the main usage category (C4)\<close>

text \<open>
  C4, as the code has it: the usage category the collector looks for is the key
  \<open>rgw.main\<close> of the bucket's usage map. On a cycle whose fetch answers the payload
  \<open>bucketStats\<close>, the cycle succeeds (the success counter goes up, the error counter
  stays), and for every label set \<open>ls\<close> the snapshot publishes, in the order of the
  payload: for each bucket with these labels one shard-count value and one value for
  each of the three quota series; and one used-bytes, one utilized-bytes and one
  object-count value, carrying the reported size, utilized size and object count, for
  each of those buckets whose usage map has the key \<open>rgw.main\<close>, and none for a bucket
  whose usage map lacks it.
\<close>

theorem bucket_usage_series_need_rgw_main:
  assumes fetch: "getCephBucketStats (bucketExchange w) (unmarshalBuckets w) = Inr bucketStats"
  shows "scrapeCountTotal (buckets_scrape w c) (''buckets'', ''success'') =
           scrapeCountTotal c (''buckets'', ''success'') + 1 \<and>
         scrapeCountTotal (buckets_scrape w c) (''buckets'', ''error'') =
           scrapeCountTotal c (''buckets'', ''error'') \<and>
         published bucketUsedBytes ls (bucketInfo_metrics (buckets_scrape w c)) =
           concat (map (\<lambda>b. case Usage b ''rgw.main'' of None \<Rightarrow> []
                            | Some usage \<Rightarrow> [Float64_of_uint64 (Size usage)])
             (filter (\<lambda>b. bucketLabels b = ls) bucketStats)) \<and>
         published bucketUtilizedBytes ls (bucketInfo_metrics (buckets_scrape w c)) =
           concat (map (\<lambda>b. case Usage b ''rgw.main'' of None \<Rightarrow> []
                            | Some usage \<Rightarrow> [Float64_of_uint64 (UtilizedSize usage)])
             (filter (\<lambda>b. bucketLabels b = ls) bucketStats)) \<and>
         published bucketObjectCount ls (bucketInfo_metrics (buckets_scrape w c)) =
           concat (map (\<lambda>b. case Usage b ''rgw.main'' of None \<Rightarrow> []
                            | Some usage \<Rightarrow> [Float64_of_uint64 (NumObjects usage)])
             (filter (\<lambda>b. bucketLabels b = ls) bucketStats)) \<and>
         published bucketShardCount ls (bucketInfo_metrics (buckets_scrape w c)) =
           map (\<lambda>b. Float64_of_NumShards (NumShards b))
             (filter (\<lambda>b. bucketLabels b = ls) bucketStats) \<and>
         published bucketQuotaEnabled ls (bucketInfo_metrics (buckets_scrape w c)) =
           map (\<lambda>b. if Enabled (Quota b) then Lit_1_0 else Lit_0_0)
             (filter (\<lambda>b. bucketLabels b = ls) bucketStats) \<and>
         published bucketQuotaMaxSizeBytes ls (bucketInfo_metrics (buckets_scrape w c)) =
           map (\<lambda>b. Float64_of_int64 (MaxSize (Quota b)))
             (filter (\<lambda>b. bucketLabels b = ls) bucketStats) \<and>
         published bucketQuotaMaxObjectCount ls (bucketInfo_metrics (buckets_scrape w c)) =
           map (\<lambda>b. Float64_of_int64 (MaxObjects (Quota b)))
             (filter (\<lambda>b. bucketLabels b = ls) bucketStats)"
  unfolding buckets_scrape_snapshot [OF fetch] published_bucketMetrics
  by (simp add: buckets_scrape_ok [OF fetch] Inc_simps Set_gauge_simps)

text \<open>
  A payload of two buckets: the one without \<open>rgw.main\<close> publishes no usage series but
  its shard count and its quota; the one with it publishes the three usage values.
\<close>

theorem bucket_usage_series_need_rgw_main_witness:
  "getCephBucketStats (bucketExchange (bucketsWorldOf (okExchange ''[]'') [exampleBucket, disabledBucket]))
     (unmarshalBuckets (bucketsWorldOf (okExchange ''[]'') [exampleBucket, disabledBucket]))
     = Inr [exampleBucket, disabledBucket] \<and>
   Usage disabledBucket ''rgw.main'' = None \<and>
   published bucketUsedBytes [''b3'', ''carol'', ''zg'']
     (bucketInfo_metrics (buckets_scrape (bucketsWorldOf (okExchange ''[]'') [exampleBucket, disabledBucket])
        NewRGWMetrics)) = [] \<and>
   published bucketUtilizedBytes [''b3'', ''carol'', ''zg'']
     (bucketInfo_metrics (buckets_scrape (bucketsWorldOf (okExchange ''[]'') [exampleBucket, disabledBucket])
        NewRGWMetrics)) = [] \<and>
   published bucketObjectCount [''b3'', ''carol'', ''zg'']
     (bucketInfo_metrics (buckets_scrape (bucketsWorldOf (okExchange ''[]'') [exampleBucket, disabledBucket])
        NewRGWMetrics)) = [] \<and>
   published bucketShardCount [''b3'', ''carol'', ''zg'']
     (bucketInfo_metrics (buckets_scrape (bucketsWorldOf (okExchange ''[]'') [exampleBucket, disabledBucket])
        NewRGWMetrics)) = [Float64_of_NumShards 1] \<and>
   published bucketQuotaEnabled [''b3'', ''carol'', ''zg'']
     (bucketInfo_metrics (buckets_scrape (bucketsWorldOf (okExchange ''[]'') [exampleBucket, disabledBucket])
        NewRGWMetrics)) = [Lit_0_0] \<and>
   published bucketUsedBytes [''b1'', ''alice'', ''zg'']
     (bucketInfo_metrics (buckets_scrape (bucketsWorldOf (okExchange ''[]'') [exampleBucket, disabledBucket])
        NewRGWMetrics)) = [Float64_of_uint64 4096] \<and>
   published bucketUtilizedBytes [''b1'', ''alice'', ''zg'']
     (bucketInfo_metrics (buckets_scrape (bucketsWorldOf (okExchange ''[]'') [exampleBucket, disabledBucket])
        NewRGWMetrics)) = [Float64_of_uint64 4000] \<and>
   published bucketObjectCount [''b1'', ''alice'', ''zg'']
     (bucketInfo_metrics (buckets_scrape (bucketsWorldOf (okExchange ''[]'') [exampleBucket, disabledBucket])
        NewRGWMetrics)) = [Float64_of_uint64 3] \<and>
   scrapeCountTotal (buckets_scrape (bucketsWorldOf (okExchange ''[]'') [exampleBucket, disabledBucket])
        NewRGWMetrics) (''buckets'', ''success'') = 1 \<and>
   scrapeCountTotal (buckets_scrape (bucketsWorldOf (okExchange ''[]'') [exampleBucket, disabledBucket])
        NewRGWMetrics) (''buckets'', ''error'') = 0"
  using bucket_usage_series_need_rgw_main [OF fetch_bucketsWorldOf
        [of "''[]''" "[exampleBucket, disabledBucket]"],
      where c = NewRGWMetrics and ls = "[''b3'', ''carol'', ''zg'']"]
    bucket_usage_series_need_rgw_main [OF fetch_bucketsWorldOf
        [of "''[]''" "[exampleBucket, disabledBucket]"],
      where c = NewRGWMetrics and ls = "[''b1'', ''alice'', ''zg'']"]
    fetch_bucketsWorldOf [of "''[]''" "[exampleBucket, disabledBucket]"]
  by (simp add: bucketLabels_def exampleBucket_def disabledBucket_def NewRGWMetrics_def)

text \<open>
  C4 as the specification words it names the category \<open>main\<close>. A bucket whose usage map
  has an entry under the key \<open>main\<close> publishes none of the three usage series; and a
  bucket whose usage map lacks the key \<open>main\<close> (its entry is under \<open>rgw.main\<close>) publishes
  them.
\<close>

theorem bucket_main_key_counterexample:
  "Usage mainOnlyBucket ''main'' = Some \<lparr>Size = 10, UtilizedSize = 9, NumObjects = 1\<rparr> \<and>
   published bucketUsedBytes [''b2'', ''bob'', ''zg'']
     (bucketInfo_metrics (buckets_scrape (bucketsWorldOf (okExchange ''[]'') [mainOnlyBucket])
        NewRGWMetrics)) = [] \<and>
   published bucketUtilizedBytes [''b2'', ''bob'', ''zg'']
     (bucketInfo_metrics (buckets_scrape (bucketsWorldOf (okExchange ''[]'') [mainOnlyBucket])
        NewRGWMetrics)) = [] \<and>
   published bucketObjectCount [''b2'', ''bob'', ''zg'']
     (bucketInfo_metrics (buckets_scrape (bucketsWorldOf (okExchange ''[]'') [mainOnlyBucket])
        NewRGWMetrics)) = [] \<and>
   Usage exampleBucket ''main'' = None \<and>
   published bucketUsedBytes [''b1'', ''alice'', ''zg'']
     (bucketInfo_metrics (buckets_scrape (bucketsWorldOf (okExchange ''[]'') [exampleBucket])
        NewRGWMetrics)) = [Float64_of_uint64 4096]"
  by (simp add: buckets_scrape_def bucketsWorldOf_def okExchange_def getCephBucketStats_def
      queryCephAdminAPI_def StatusOK_def Let_def Inc_def Set_gauge_def NewRGWMetrics_def
      bucketMetrics_def appendBucketMetrics_def MustNewConstMetric_def published_def
      mainOnlyBucket_def exampleBucket_def
      bucketShardCount_def bucketUsedBytes_def bucketUtilizedBytes_def
      bucketObjectCount_def bucketQuotaEnabled_def bucketQuotaMaxSizeBytes_def
      bucketQuotaMaxObjectCount_def)

section \<open>The quota series of a bucket (C5)\<close>

text \<open>
  C5. On a cycle whose fetch answers the payload \<open>bucketStats\<close>, for every label set
  \<open>ls\<close> the snapshot publishes, for each bucket of the payload with these labels and in
  the order of the payload, a quota-enabled value that is \<open>1.0\<close> when the quota's enabled
  flag is true and \<open>0.0\<close> when it is false, a quota-max-size value and a
  quota-max-objects value that are \<open>float64\<close> of the configured limits. No condition is
  put on the flag or on the limits: every bucket of the payload has its three quota
  metrics in the snapshot, with its labels and the timestamp of the cycle.
\<close>

theorem bucket_quota_series_unconditional:
  assumes fetch: "getCephBucketStats (bucketExchange w) (unmarshalBuckets w) = Inr bucketStats"
  shows "published bucketQuotaEnabled ls (bucketInfo_metrics (buckets_scrape w c)) =
           map (\<lambda>b. if Enabled (Quota b) then Lit_1_0 else Lit_0_0)
             (filter (\<lambda>b. bucketLabels b = ls) bucketStats) \<and>
         published bucketQuotaMaxSizeBytes ls (bucketInfo_metrics (buckets_scrape w c)) =
           map (\<lambda>b. Float64_of_int64 (MaxSize (Quota b)))
             (filter (\<lambda>b. bucketLabels b = ls) bucketStats) \<and>
         published bucketQuotaMaxObjectCount ls (bucketInfo_metrics (buckets_scrape w c)) =
           map (\<lambda>b. Float64_of_int64 (MaxObjects (Quota b)))
             (filter (\<lambda>b. bucketLabels b = ls) bucketStats) \<and>
         (\<forall>b \<in> set bucketStats.
            MustNewConstMetric bucketQuotaEnabled GaugeValue
              (if Enabled (Quota b) then Lit_1_0 else Lit_0_0) (bucketLabels b) (bucketsNow w)
              \<in> set (bucketInfo_metrics (buckets_scrape w c)) \<and>
            MustNewConstMetric bucketQuotaMaxSizeBytes GaugeValue
              (Float64_of_int64 (MaxSize (Quota b))) (bucketLabels b) (bucketsNow w)
              \<in> set (bucketInfo_metrics (buckets_scrape w c)) \<and>
            MustNewConstMetric bucketQuotaMaxObjectCount GaugeValue
              (Float64_of_int64 (MaxObjects (Quota b))) (bucketLabels b) (bucketsNow w)
              \<in> set (bucketInfo_metrics (buckets_scrape w c)))"
  unfolding buckets_scrape_snapshot [OF fetch] published_bucketMetrics
  by (simp add: quota_series_emitted)

text \<open>
  A bucket with a disabled quota, max size zero and max objects minus one publishes
  \<open>0.0\<close>, \<open>float64(0)\<close> and \<open>float64(-1)\<close>; a bucket with an enabled quota publishes \<open>1.0\<close>.
\<close>

theorem bucket_quota_series_unconditional_witness:
  "getCephBucketStats (bucketExchange (bucketsWorldOf (okExchange ''[]'') [exampleBucket, disabledBucket]))
     (unmarshalBuckets (bucketsWorldOf (okExchange ''[]'') [exampleBucket, disabledBucket]))
     = Inr [exampleBucket, disabledBucket] \<and>
   disabledBucket \<in> set [exampleBucket, disabledBucket] \<and>
   Quota disabledBucket = \<lparr>Enabled = False, MaxSize = 0, MaxObjects = - 1\<rparr> \<and>
   published bucketQuotaEnabled [''b3'', ''carol'', ''zg'']
     (bucketInfo_metrics (buckets_scrape (bucketsWorldOf (okExchange ''[]'') [exampleBucket, disabledBucket])
        NewRGWMetrics)) = [Lit_0_0] \<and>
   published bucketQuotaMaxSizeBytes [''b3'', ''carol'', ''zg'']
     (bucketInfo_metrics (buckets_scrape (bucketsWorldOf (okExchange ''[]'') [exampleBucket, disabledBucket])
        NewRGWMetrics)) = [Float64_of_int64 0] \<and>
   published bucketQuotaMaxObjectCount [''b3'', ''carol'', ''zg'']
     (bucketInfo_metrics (buckets_scrape (bucketsWorldOf (okExchange ''[]'') [exampleBucket, disabledBucket])
        NewRGWMetrics)) = [Float64_of_int64 (- 1)] \<and>
   published bucketQuotaEnabled [''b1'', ''alice'', ''zg'']
     (bucketInfo_metrics (buckets_scrape (bucketsWorldOf (okExchange ''[]'') [exampleBucket, disabledBucket])
        NewRGWMetrics)) = [Lit_1_0] \<and>
   MustNewConstMetric bucketQuotaEnabled GaugeValue Lit_0_0 [''b3'', ''carol'', ''zg''] 2000
     \<in> set (bucketInfo_metrics (buckets_scrape
          (bucketsWorldOf (okExchange ''[]'') [exampleBucket, disabledBucket]) NewRGWMetrics))"
  using bucket_quota_series_unconditional [OF fetch_bucketsWorldOf
        [of "''[]''" "[exampleBucket, disabledBucket]"],
      where c = NewRGWMetrics and ls = "[''b3'', ''carol'', ''zg'']"]
    bucket_quota_series_unconditional [OF fetch_bucketsWorldOf
        [of "''[]''" "[exampleBucket, disabledBucket]"],
      where c = NewRGWMetrics and ls = "[''b1'', ''alice'', ''zg'']"]
    fetch_bucketsWorldOf [of "''[]''" "[exampleBucket, disabledBucket]"]
  by (simp add: bucketLabels_def exampleBucket_def disabledBucket_def bucketsWorldOf_def)

section \<open>The errors of the fetchers (C6)\<close>

text \<open>
  C6. Each fetcher returns an error exactly when its request fails in transport (the
  signed request cannot be built, sent, or its response read to the end), the status of
  the response is not 200 OK, or the body does not decode; the user-quota fetch also
  when, the list of users being fetched, the lookup of some user of the list so fails,
  and in no other case. When the fetch of a cycle returns an error, the collector's
  snapshot stays as it was and its error counter goes up by one. No error ends the loop:
  along any run the number of cycles a collector has accounted for (errors and
  successes) grows by the number of cycles the run executes, which depends on the
  cancellations and the ticks only and not on what the fetches returned (the interval
  being positive, as the ticker requires).
\<close>

theorem fetch_error_causes:
  "isl (getCephUsageStats ux uu) = fetchFails ux uu \<and>
   isl (getCephBucketStats bx bu) = fetchFails bx bu \<and>
   isl (getCephUserQuotaStats lx lu lookups su) =
     (fetchFails lx lu \<or>
      (\<exists>users. getUserList lx lu = Inr users \<and>
         (\<exists>i < length users. fetchFails (lookups i (users ! i)) su))) \<and>
   (isl (getCephUsageStats (usageExchange ow) (unmarshalUsage ow)) \<longrightarrow>
      ops_metrics (ops_scrape ow c) = ops_metrics c \<and>
      scrapeCountTotal (ops_scrape ow c) (''ops'', ''error'') = scrapeCountTotal c (''ops'', ''error'') + 1) \<and>
   (isl (getCephBucketStats (bucketExchange bw) (unmarshalBuckets bw)) \<longrightarrow>
      bucketInfo_metrics (buckets_scrape bw c) = bucketInfo_metrics c \<and>
      scrapeCountTotal (buckets_scrape bw c) (''buckets'', ''error'') =
        scrapeCountTotal c (''buckets'', ''error'') + 1) \<and>
   (isl (getCephUserQuotaStats (userListExchange uw) (unmarshalUserList uw) (userLookups uw)
           (unmarshalUserStats uw)) \<longrightarrow>
      userInfo_metrics (users_scrape uw c) = userInfo_metrics c \<and>
      scrapeCountTotal (users_scrape uw c) (''users'', ''error'') =
        scrapeCountTotal c (''users'', ''error'') + 1) \<and>
   (0 < sint interval \<longrightarrow>
      accounted ''ops'' (snd (ops_FetchMetrics interval oits c)) = accounted ''ops'' c + scrapes oits \<and>
      accounted ''buckets'' (snd (buckets_FetchMetrics interval bits c)) =
        accounted ''buckets'' c + scrapes bits \<and>
      accounted ''users'' (snd (users_FetchMetrics interval uits c)) =
        accounted ''users'' c + scrapes uits)"
proof -
  have run: "accounted ty (snd (scrapeLoop scrape its c)) = accounted ty c + scrapes its"
    if "\<And>w c. accounted ty (scrape w c) = Suc (accounted ty c)" for ty scrape
      and its :: "'w iteration list"
    unfolding scrapeLoop_state
    using accounted_foldl [of ty scrape c "take (scrapes its) its", OF that] scrapes_le [of its]
    by simp
  show ?thesis
    by (simp add: isl_getCephUsageStats isl_getCephBucketStats isl_getCephUserQuotaStats
        ops_scrape_error buckets_scrape_error users_scrape_error Inc_simps Set_gauge_simps
        ops_FetchMetrics_def buckets_FetchMetrics_def users_FetchMetrics_def
        run [OF accounted_ops_scrape] run [OF accounted_buckets_scrape]
        run [OF accounted_users_scrape])
qed

text \<open>
  A refused connection, a 403 answer and an undecodable body are errors, a decodable
  200 answer is none; a refused third lookup of five fails the user-quota fetch; a
  failing cycle of each collector keeps its snapshot; and the run of a failed, a
  successful and a failed cycle of the usage collector executes all three cycles and
  counts two errors and one success.
\<close>

theorem fetch_error_causes_witness:
  "isl (getCephUsageStats refusedExchange (\<lambda>resp. Inr exampleUsage)) \<and>
   isl (getCephUsageStats ((okExchange ''{}'')\<lparr>Status := ''403 Forbidden'', StatusCode := 403\<rparr>)
          (\<lambda>resp. Inr exampleUsage)) \<and>
   isl (getCephBucketStats (okExchange ''{'') (\<lambda>resp. Inl ''unexpected end of JSON input'')) \<and>
   \<not> isl (getCephBucketStats (okExchange ''[]'') (\<lambda>resp. Inr [])) \<and>
   isl (getCephUserQuotaStats (okExchange ''{}'') (\<lambda>resp. Inr \<lparr>Keys = fiveUsers\<rparr>) thirdLookupFails
          (\<lambda>resp. Inr exampleUserStats)) \<and>
   \<not> isl (getCephUserQuotaStats (okExchange ''{}'') (\<lambda>resp. Inr \<lparr>Keys = fiveUsers\<rparr>) allLookupsOk
          (\<lambda>resp. Inr exampleUserStats)) \<and>
   isl (getCephUsageStats (usageExchange failingOpsWorld) (unmarshalUsage failingOpsWorld)) \<and>
   ops_metrics (ops_scrape failingOpsWorld publishedOnce) = ops_metrics publishedOnce \<and>
   isl (getCephBucketStats (bucketExchange failingBucketsWorld) (unmarshalBuckets failingBucketsWorld)) \<and>
   bucketInfo_metrics (buckets_scrape failingBucketsWorld publishedOnce) = bucketInfo_metrics publishedOnce \<and>
   isl (getCephUserQuotaStats (userListExchange failingUsersWorld) (unmarshalUserList failingUsersWorld)
     (userLookups failingUsersWorld) (unmarshalUserStats failingUsersWorld)) \<and>
   userInfo_metrics (users_scrape failingUsersWorld publishedOnce) = userInfo_metrics publishedOnce \<and>
   0 < sint oneMinute \<and> scrapes failOkFail = 3 \<and>
   accounted ''ops'' (snd (ops_FetchMetrics oneMinute failOkFail NewRGWMetrics)) = 3 \<and>
   scrapeCountTotal (snd (ops_FetchMetrics oneMinute failOkFail NewRGWMetrics)) (''ops'', ''error'') = 2 \<and>
   scrapeCountTotal (snd (ops_FetchMetrics oneMinute failOkFail NewRGWMetrics)) (''ops'', ''success'') = 1"
proof -
  note c1 = fetch_error_causes [THEN conjunct1]
  note c2 = fetch_error_causes [THEN conjunct2, THEN conjunct1]
  note c3 = fetch_error_causes [THEN conjunct2, THEN conjunct2, THEN conjunct1]
  note c4 = fetch_error_causes [THEN conjunct2, THEN conjunct2, THEN conjunct2, THEN conjunct1]
  note c5 = fetch_error_causes [THEN conjunct2, THEN conjunct2, THEN conjunct2, THEN conjunct2,
      THEN conjunct1]
  note c6 = fetch_error_causes [THEN conjunct2, THEN conjunct2, THEN conjunct2, THEN conjunct2,
      THEN conjunct2, THEN conjunct1]
  note c7 = fetch_error_causes [where interval = oneMinute and oits = failOkFail
      and c = NewRGWMetrics, THEN conjunct2, THEN conjunct2, THEN conjunct2, THEN conjunct2,
      THEN conjunct2, THEN conjunct2, THEN mp, THEN conjunct1]
  have refused: "isl (getCephUsageStats refusedExchange (\<lambda>resp. Inr exampleUsage))"
    unfolding c1 by (rule fetchFails_refused)
  have forbidden: "isl (getCephUsageStats
      ((okExchange ''{}'')\<lparr>Status := ''403 Forbidden'', StatusCode := 403\<rparr>) (\<lambda>resp. Inr exampleUsage))"
    unfolding c1 by (simp add: fetchFails_def StatusOK_def)
  have undecodable: "isl (getCephBucketStats (okExchange ''{'')
      (\<lambda>resp. Inl ''unexpected end of JSON input''))"
    unfolding c2 by (simp add: fetchFails_ok)
  have fine: "\<not> isl (getCephBucketStats (okExchange ''[]'') (\<lambda>resp. Inr []))"
    unfolding c2 by (simp add: fetchFails_ok)
  have users: "getUserList (okExchange ''{}'') (\<lambda>resp. Inr \<lparr>Keys = fiveUsers\<rparr>) = Inr fiveUsers"
    by (simp add: getUserList_def queryCephAdminAPI_def okExchange_def StatusOK_def)
  have "2 < length fiveUsers"
    "fetchFails (thirdLookupFails 2 (fiveUsers ! 2)) (\<lambda>resp. Inr exampleUserStats)"
    by (simp_all add: fiveUsers_def thirdLookupFails_def fetchFails_refused)
  then have third: "isl (getCephUserQuotaStats (okExchange ''{}'') (\<lambda>resp. Inr \<lparr>Keys = fiveUsers\<rparr>)
      thirdLookupFails (\<lambda>resp. Inr exampleUserStats))"
    unfolding c3 users by blast
  have allOk: "\<not> isl (getCephUserQuotaStats (okExchange ''{}'') (\<lambda>resp. Inr \<lparr>Keys = fiveUsers\<rparr>)
      allLookupsOk (\<lambda>resp. Inr exampleUserStats))"
    unfolding c3 users by (simp add: allLookupsOk_def fetchFails_ok)
  have ops: "ops_metrics (ops_scrape failingOpsWorld publishedOnce) = ops_metrics publishedOnce"
    using c4 [of failingOpsWorld publishedOnce] fetch_failing(1) by simp
  have buckets: "bucketInfo_metrics (buckets_scrape failingBucketsWorld publishedOnce) =
      bucketInfo_metrics publishedOnce"
    using c5 [of failingBucketsWorld publishedOnce] fetch_failing(2) by simp
  have usersKept: "userInfo_metrics (users_scrape failingUsersWorld publishedOnce) =
      userInfo_metrics publishedOnce"
    using c6 [of failingUsersWorld publishedOnce] fetch_failing(3) by simp
  have n: "scrapes failOkFail = 3"
    by (simp add: failOkFail_def tickIteration_def)
  have "0 < sint oneMinute"
    by (simp add: oneMinute_def)
  with c7
  have run: "accounted ''ops'' (snd (ops_FetchMetrics oneMinute failOkFail NewRGWMetrics)) = 3"
    unfolding n by (simp add: accounted_def NewRGWMetrics_def)
  from refused forbidden undecodable fine third allOk fetch_failing ops buckets usersKept n run
    failOkFail_counts \<open>0 < sint oneMinute\<close>
  show ?thesis by simp
qed

section \<open>Scrape accounting (C8)\<close>

text \<open>
  C8. On every cycle of each collector, whatever the fetch returns, the duration gauge of
  the collector is set to the seconds elapsed since the start of the cycle, taken when
  the fetcher has returned, and exactly one of the collector's two counters goes up by
  one while the other stays.
\<close>

theorem scrape_accounting_every_cycle:
  "scrapeDurationSeconds (ops_scrape ow c) ''ops'' = Some (Seconds (opsSince ow)) \<and>
   (scrapeCountTotal (ops_scrape ow c) (''ops'', ''error'') = scrapeCountTotal c (''ops'', ''error'') + 1 \<and>
    scrapeCountTotal (ops_scrape ow c) (''ops'', ''success'') = scrapeCountTotal c (''ops'', ''success'') \<or>
    scrapeCountTotal (ops_scrape ow c) (''ops'', ''success'') = scrapeCountTotal c (''ops'', ''success'') + 1 \<and>
    scrapeCountTotal (ops_scrape ow c) (''ops'', ''error'') = scrapeCountTotal c (''ops'', ''error'')) \<and>
   scrapeDurationSeconds (buckets_scrape bw c) ''buckets'' = Some (Seconds (bucketsSince bw)) \<and>
   (scrapeCountTotal (buckets_scrape bw c) (''buckets'', ''error'') = scrapeCountTotal c (''buckets'', ''error'') + 1 \<and>
    scrapeCountTotal (buckets_scrape bw c) (''buckets'', ''success'') = scrapeCountTotal c (''buckets'', ''success'') \<or>
    scrapeCountTotal (buckets_scrape bw c) (''buckets'', ''success'') = scrapeCountTotal c (''buckets'', ''success'') + 1 \<and>
    scrapeCountTotal (buckets_scrape bw c) (''buckets'', ''error'') = scrapeCountTotal c (''buckets'', ''error'')) \<and>
   scrapeDurationSeconds (users_scrape uw c) ''users'' = Some (Seconds (usersSince uw)) \<and>
   (scrapeCountTotal (users_scrape uw c) (''users'', ''error'') = scrapeCountTotal c (''users'', ''error'') + 1 \<and>
    scrapeCountTotal (users_scrape uw c) (''users'', ''success'') = scrapeCountTotal c (''users'', ''success'') \<or>
    scrapeCountTotal (users_scrape uw c) (''users'', ''success'') = scrapeCountTotal c (''users'', ''success'') + 1 \<and>
    scrapeCountTotal (users_scrape uw c) (''users'', ''error'') = scrapeCountTotal c (''users'', ''error''))"
proof -
  have ops: "scrapeDurationSeconds (ops_scrape ow c) ''ops'' = Some (Seconds (opsSince ow)) \<and>
   (scrapeCountTotal (ops_scrape ow c) (''ops'', ''error'') = scrapeCountTotal c (''ops'', ''error'') + 1 \<and>
    scrapeCountTotal (ops_scrape ow c) (''ops'', ''success'') = scrapeCountTotal c (''ops'', ''success'') \<or>
    scrapeCountTotal (ops_scrape ow c) (''ops'', ''success'') = scrapeCountTotal c (''ops'', ''success'') + 1 \<and>
    scrapeCountTotal (ops_scrape ow c) (''ops'', ''error'') = scrapeCountTotal c (''ops'', ''error''))"
  proof (cases "getCephUsageStats (usageExchange ow) (unmarshalUsage ow)")
    case (Inl err)
    then have "isl (getCephUsageStats (usageExchange ow) (unmarshalUsage ow))" by simp
    then show ?thesis by (simp add: ops_scrape_error Inc_simps Set_gauge_simps)
  next
    case (Inr usageStats)
    then show ?thesis by (simp add: ops_scrape_ok Inc_simps Set_gauge_simps)
  qed
  have buckets: "scrapeDurationSeconds (buckets_scrape bw c) ''buckets'' = Some (Seconds (bucketsSince bw)) \<and>
   (scrapeCountTotal (buckets_scrape bw c) (''buckets'', ''error'') = scrapeCountTotal c (''buckets'', ''error'') + 1 \<and>
    scrapeCountTotal (buckets_scrape bw c) (''buckets'', ''success'') = scrapeCountTotal c (''buckets'', ''success'') \<or>
    scrapeCountTotal (buckets_scrape bw c) (''buckets'', ''success'') = scrapeCountTotal c (''buckets'', ''success'') + 1 \<and>
    scrapeCountTotal (buckets_scrape bw c) (''buckets'', ''error'') = scrapeCountTotal c (''buckets'', ''error''))"
  proof (cases "getCephBucketStats (bucketExchange bw) (unmarshalBuckets bw)")
    case (Inl err)
    then have "isl (getCephBucketStats (bucketExchange bw) (unmarshalBuckets bw))" by simp
    then show ?thesis by (simp add: buckets_scrape_error Inc_simps Set_gauge_simps)
  next
    case (Inr bucketStats)
    then show ?thesis by (simp add: buckets_scrape_ok Inc_simps Set_gauge_simps)
  qed
  have users: "scrapeDurationSeconds (users_scrape uw c) ''users'' = Some (Seconds (usersSince uw)) \<and>
   (scrapeCountTotal (users_scrape uw c) (''users'', ''error'') = scrapeCountTotal c (''users'', ''error'') + 1 \<and>
    scrapeCountTotal (users_scrape uw c) (''users'', ''success'') = scrapeCountTotal c (''users'', ''success'') \<or>
    scrapeCountTotal (users_scrape uw c) (''users'', ''success'') = scrapeCountTotal c (''users'', ''success'') + 1 \<and>
    scrapeCountTotal (users_scrape uw c) (''users'', ''error'') = scrapeCountTotal c (''users'', ''error''))"
  proof (cases "getCephUserQuotaStats (userListExchange uw) (unmarshalUserList uw) (userLookups uw)
        (unmarshalUserStats uw)")
    case (Inl err)
    then have "isl (getCephUserQuotaStats (userListExchange uw) (unmarshalUserList uw) (userLookups uw)
        (unmarshalUserStats uw))" by simp
    then show ?thesis by (simp add: users_scrape_error Inc_simps Set_gauge_simps)
  next
    case (Inr userQuotaInfo)
    then show ?thesis by (simp add: users_scrape_ok Inc_simps Set_gauge_simps)
  qed
  from ops buckets users show ?thesis by (intro conjI) blast+
qed

section \<open>The reader and the collector's lock (C9)\<close>

text \<open>
  C9, as the code has it. In every state that the statements of \<open>Collect\<close> and of the
  publish can reach, in any interleaving: while the reader is in the loop of \<open>Collect\<close>
  it holds the collector's mutex, what it has sent on the channel followed by what it
  still has to send is the current snapshot, and the publisher can neither take the
  mutex nor assign; the reader releases the mutex only when nothing is left to send,
  and then the metrics it has sent are exactly the snapshot; and while the publisher is
  at its assignment it holds the mutex and the reader can neither take it nor send. So a
  \<open>Collect\<close> call sends one published snapshot and never a mix of two, and a publish
  waits for as long as the reader is sending.
\<close>

theorem reader_sends_under_lock:
  assumes "run as newCollector = Some s"
  shows "(\<forall>rest. reader s = R_range rest \<longrightarrow>
            mutex s = Some Reader \<and> ch s @ rest = metrics s \<and>
            exec P_locks s = None \<and> exec P_assigns s = None) \<and>
         (reader s = R_Lock \<longrightarrow> ch s = []) \<and>
         (\<forall>s'. exec R_unlocks s = Some s' \<longrightarrow>
            ch s' = metrics s' \<and> mutex s' = None \<and> reader s' = R_idle) \<and>
         (\<forall>new. publisher s = P_assign new \<longrightarrow>
            mutex s = Some Publisher \<and> exec R_locks s = None \<and> exec R_sends s = None)"
proof -
  have inv: "lockDiscipline s"
    using lockDiscipline_new assms by (rule lockDiscipline_run)
  show ?thesis
  proof (intro conjI allI impI)
    fix rest assume r: "reader s = R_range rest"
    with inv show "mutex s = Some Reader" "ch s @ rest = metrics s"
      by (simp_all add: lockDiscipline_def)
    with inv show "exec P_locks s = None" "exec P_assigns s = None"
      by (auto simp: lockDiscipline_def split: publisher_pc.splits)
  next
    assume "reader s = R_Lock"
    with inv show "ch s = []" by (simp add: lockDiscipline_def)
  next
    fix s' assume "exec R_unlocks s = Some s'"
    then have r: "reader s = R_range []" and s': "s' = s\<lparr>mutex := None, reader := R_idle\<rparr>"
      by (simp_all split: if_splits)
    from inv r have "ch s = metrics s" by (simp add: lockDiscipline_def)
    with s' show "ch s' = metrics s'" "mutex s' = None" "reader s' = R_idle" by simp_all
  next
    fix new assume p: "publisher s = P_assign new"
    with inv show "mutex s = Some Publisher" by (simp add: lockDiscipline_def)
    with inv show "exec R_locks s = None" "exec R_sends s = None"
      by (auto simp: lockDiscipline_def split: reader_pc.splits list.splits)
  qed
qed

text \<open>
  The schedule of the example at two of its states: the reader midway, holding the mutex
  with the publisher blocked, and, after the reader has sent the rest and returned, the
  publisher holding the mutex with the reader blocked.
\<close>

theorem reader_sends_under_lock_witness:
  "run readerMidway newCollector =
     Some \<lparr>mutex = Some Reader, metrics = [metricA, metricB], publisher = P_Lock [],
           reader = R_range [metricB], ch = [metricA]\<rparr> \<and>
   [metricA] @ [metricB] = [metricA, metricB] \<and>
   exec P_locks \<lparr>mutex = Some Reader, metrics = [metricA, metricB], publisher = P_Lock [],
           reader = R_range [metricB], ch = [metricA]\<rparr> = None \<and>
   run (readerMidway @ [R_sends, R_unlocks, P_locks]) newCollector =
     Some \<lparr>mutex = Some Publisher, metrics = [metricA, metricB], publisher = P_assign [],
           reader = R_idle, ch = [metricA, metricB]\<rparr> \<and>
   exec R_locks \<lparr>mutex = Some Publisher, metrics = [metricA, metricB], publisher = P_assign [],
           reader = R_idle, ch = [metricA, metricB]\<rparr> = None"
proof -
  have mid: "run readerMidway newCollector =
     Some \<lparr>mutex = Some Reader, metrics = [metricA, metricB], publisher = P_Lock [],
           reader = R_range [metricB], ch = [metricA]\<rparr>"
    by (simp add: readerMidway_def newCollector_def)
  have later: "run (readerMidway @ [R_sends, R_unlocks, P_locks]) newCollector =
     Some \<lparr>mutex = Some Publisher, metrics = [metricA, metricB], publisher = P_assign [],
           reader = R_idle, ch = [metricA, metricB]\<rparr>"
    by (simp add: readerMidway_def newCollector_def)
  from reader_sends_under_lock [OF mid] reader_sends_under_lock [OF later] mid later
  show ?thesis by simp
qed

text \<open>
  C9 as the specification words it has the reader copy the reference to the snapshot,
  release the lock and only then pass the series on, so that a publish never waits
  longer than for the copy. In this reachable state the reader has sent the first of
  two metrics on the channel and has the second still to send, it holds the mutex, and
  the publisher, which has a new snapshot ready, cannot take the mutex.
\<close>

theorem reader_holds_lock_counterexample:
  "run readerMidway newCollector =
     Some \<lparr>mutex = Some Reader, metrics = [metricA, metricB], publisher = P_Lock [],
           reader = R_range [metricB], ch = [metricA]\<rparr> \<and>
   exec P_locks \<lparr>mutex = Some Reader, metrics = [metricA, metricB], publisher = P_Lock [],
           reader = R_range [metricB], ch = [metricA]\<rparr> = None"
  by (simp add: readerMidway_def newCollector_def)

section \<open>An empty payload (C10)\<close>

text \<open>
  C10. A cycle whose fetch succeeds with an empty payload (a usage payload with no raw
  entry, in particular one with no entries at all; an empty list of buckets; an empty
  list of users) publishes the empty snapshot in place of whatever was published before,
  and counts as a success: the success counter goes up by one and the error counter
  stays.
\<close>

theorem empty_payload_replaces_snapshot:
  "(getCephUsageStats (usageExchange ow) (unmarshalUsage ow) = Inr usageStats \<and>
    rawEntries usageStats = [] \<and>
    mset (usageRangeOrder ow (combineUsage usageStats)) = mset (combineUsage usageStats) \<longrightarrow>
      ops_metrics (ops_scrape ow c) = [] \<and> ops_Collect (ops_scrape ow c) = [] \<and>
      scrapeCountTotal (ops_scrape ow c) (''ops'', ''success'') = scrapeCountTotal c (''ops'', ''success'') + 1 \<and>
      scrapeCountTotal (ops_scrape ow c) (''ops'', ''error'') = scrapeCountTotal c (''ops'', ''error'')) \<and>
   (getCephBucketStats (bucketExchange bw) (unmarshalBuckets bw) = Inr [] \<longrightarrow>
      bucketInfo_metrics (buckets_scrape bw c) = [] \<and> buckets_Collect (buckets_scrape bw c) = [] \<and>
      scrapeCountTotal (buckets_scrape bw c) (''buckets'', ''success'') = scrapeCountTotal c (''buckets'', ''success'') + 1 \<and>
      scrapeCountTotal (buckets_scrape bw c) (''buckets'', ''error'') = scrapeCountTotal c (''buckets'', ''error'')) \<and>
   (getUserList (userListExchange uw) (unmarshalUserList uw) = Inr [] \<and>
    mset (usersRangeOrder uw []) = mset [] \<longrightarrow>
      userInfo_metrics (users_scrape uw c) = [] \<and> users_Collect (users_scrape uw c) = [] \<and>
      scrapeCountTotal (users_scrape uw c) (''users'', ''success'') = scrapeCountTotal c (''users'', ''success'') + 1 \<and>
      scrapeCountTotal (users_scrape uw c) (''users'', ''error'') = scrapeCountTotal c (''users'', ''error''))"
proof (intro conjI impI)
  assume a: "getCephUsageStats (usageExchange ow) (unmarshalUsage ow) = Inr usageStats \<and>
    rawEntries usageStats = [] \<and>
    mset (usageRangeOrder ow (combineUsage usageStats)) = mset (combineUsage usageStats)"
  then have fetch: "getCephUsageStats (usageExchange ow) (unmarshalUsage ow) = Inr usageStats"
    by simp
  from a have "combineUsage usageStats = []"
    by (simp add: combineUsage_no_rows)
  with a have visited: "usageRangeOrder ow (combineUsage usageStats) = []"
    by simp
  have snapshot: "ops_metrics (ops_scrape ow c) = []"
    by (simp add: ops_scrape_ok [OF fetch] visited usageMetrics_def)
  then show "ops_metrics (ops_scrape ow c) = []" .
  from snapshot show "ops_Collect (ops_scrape ow c) = []" by (simp add: Collect_eq)
  show "scrapeCountTotal (ops_scrape ow c) (''ops'', ''success'') = scrapeCountTotal c (''ops'', ''success'') + 1"
    "scrapeCountTotal (ops_scrape ow c) (''ops'', ''error'') = scrapeCountTotal c (''ops'', ''error'')"
    by (simp_all add: ops_scrape_ok [OF fetch] Inc_simps Set_gauge_simps)
next
  assume fetch: "getCephBucketStats (bucketExchange bw) (unmarshalBuckets bw) = Inr []"
  have snapshot: "bucketInfo_metrics (buckets_scrape bw c) = []"
    by (simp add: buckets_scrape_ok [OF fetch] bucketMetrics_def)
  then show "bucketInfo_metrics (buckets_scrape bw c) = []" .
  from snapshot show "buckets_Collect (buckets_scrape bw c) = []" by (simp add: Collect_eq)
  show "scrapeCountTotal (buckets_scrape bw c) (''buckets'', ''success'') = scrapeCountTotal c (''buckets'', ''success'') + 1"
    "scrapeCountTotal (buckets_scrape bw c) (''buckets'', ''error'') = scrapeCountTotal c (''buckets'', ''error'')"
    by (simp_all add: buckets_scrape_ok [OF fetch] Inc_simps Set_gauge_simps)
next
  assume a: "getUserList (userListExchange uw) (unmarshalUserList uw) = Inr [] \<and>
    mset (usersRangeOrder uw []) = mset []"
  then have fetch: "getCephUserQuotaStats (userListExchange uw) (unmarshalUserList uw)
      (userLookups uw) (unmarshalUserStats uw) = Inr []"
    and visited: "usersRangeOrder uw [] = []"
    by (simp_all add: getCephUserQuotaStats_def)
  have snapshot: "userInfo_metrics (users_scrape uw c) = []"
    by (simp add: users_scrape_ok [OF fetch] visited userMetrics_def)
  then show "userInfo_metrics (users_scrape uw c) = []" .
  from snapshot show "users_Collect (users_scrape uw c) = []" by (simp add: Collect_eq)
  show "scrapeCountTotal (users_scrape uw c) (''users'', ''success'') = scrapeCountTotal c (''users'', ''success'') + 1"
    "scrapeCountTotal (users_scrape uw c) (''users'', ''error'') = scrapeCountTotal c (''users'', ''error'')"
    by (simp_all add: users_scrape_ok [OF fetch] Inc_simps Set_gauge_simps)
qed

text \<open>
  After one successful cycle of each collector has published 4, 7 and 15 metrics, a
  cycle with an empty payload leaves each snapshot empty and counts a second success.
\<close>

theorem empty_payload_replaces_snapshot_witness:
  "getCephUsageStats (usageExchange (opsWorldOf emptyUsage)) (unmarshalUsage (opsWorldOf emptyUsage))
     = Inr emptyUsage \<and>
   rawEntries emptyUsage = [] \<and>
   mset (usageRangeOrder (opsWorldOf emptyUsage) (combineUsage emptyUsage)) = mset (combineUsage emptyUsage) \<and>
   length (ops_metrics publishedOnce) = 4 \<and>
   ops_metrics (ops_scrape (opsWorldOf emptyUsage) publishedOnce) = [] \<and>
   scrapeCountTotal (ops_scrape (opsWorldOf emptyUsage) publishedOnce) (''ops'', ''success'') = 2 \<and>
   scrapeCountTotal (ops_scrape (opsWorldOf emptyUsage) publishedOnce) (''ops'', ''error'') = 0 \<and>
   getCephBucketStats (bucketExchange (bucketsWorldOf (okExchange ''[]'') []))
     (unmarshalBuckets (bucketsWorldOf (okExchange ''[]'') [])) = Inr [] \<and>
   length (bucketInfo_metrics publishedOnce) = 7 \<and>
   bucketInfo_metrics (buckets_scrape (bucketsWorldOf (okExchange ''[]'') []) publishedOnce) = [] \<and>
   scrapeCountTotal (buckets_scrape (bucketsWorldOf (okExchange ''[]'') []) publishedOnce)
     (''buckets'', ''success'') = 2 \<and>
   getUserList (userListExchange (usersWorldOf (okExchange ''{}'') [] allLookupsOk))
     (unmarshalUserList (usersWorldOf (okExchange ''{}'') [] allLookupsOk)) = Inr [] \<and>
   mset (usersRangeOrder (usersWorldOf (okExchange ''{}'') [] allLookupsOk) []) = mset [] \<and>
   length (userInfo_metrics publishedOnce) = 15 \<and>
   userInfo_metrics (users_scrape (usersWorldOf (okExchange ''{}'') [] allLookupsOk) publishedOnce) = [] \<and>
   scrapeCountTotal (users_scrape (usersWorldOf (okExchange ''{}'') [] allLookupsOk) publishedOnce)
     (''users'', ''success'') = 2"
proof -
  have rows: "rawEntries emptyUsage = []"
    by (simp add: rawEntries_def emptyUsage_def)
  have order: "mset (usageRangeOrder (opsWorldOf emptyUsage) (combineUsage emptyUsage))
      = mset (combineUsage emptyUsage)"
    by (simp add: opsWorldOf_def)
  have uorder: "mset (usersRangeOrder (usersWorldOf (okExchange ''{}'') [] allLookupsOk) []) = mset []"
    by (simp add: usersWorldOf_simps)
  show ?thesis
    using empty_payload_replaces_snapshot [of "opsWorldOf emptyUsage" emptyUsage publishedOnce
        "bucketsWorldOf (okExchange ''[]'') []" "usersWorldOf (okExchange ''{}'') [] allLookupsOk"]
      fetch_opsWorldOf [of emptyUsage] rows order uorder
      fetch_bucketsWorldOf [of "''[]''" "[]"]
      getUserList_usersWorldOf [of "''{}''" "[]" allLookupsOk]
    by (simp add: publishedOnce_counts publishedOnce_snapshots publishedOnce_users)
qed

end
